theory Spec2Isabelle
  imports Main "HOL-Library.Char_ord" "HOL-Library.List_Lexorder" "HOL-Library.Word"
begin

unbundle bit_operations_syntax

section \<open>JavaScript values as the client handles them\<close>

text \<open>
  The client (\<^verbatim>\<open>src/APIskinved.js\<close>) passes parameter objects whose values are
  strings, numbers, booleans, \<^verbatim>\<open>null\<close>, \<^verbatim>\<open>undefined\<close>, arrays and nested objects.
  A string is a list of UTF-16 code units; the model keeps the code units below 256
  (\<^typ>\<open>char\<close>), compared by their code as JavaScript compares them.

  A Number enters the code only through its decimal text. The model holds a finite
  number as the triple that ECMAScript's \<^verbatim>\<open>Number::toString\<close> works on: a sign, the
  digits \<open>s\<close> and the position \<open>n\<close> of the decimal point, for the value
  \<open>s * 10 ^ (n - k)\<close> where \<open>k\<close> is the number of digits of \<open>s\<close>.
  So \<^verbatim>\<open>0.5\<close> is \<open>Finite False 5 0\<close> and \<^verbatim>\<open>730\<close> is \<open>Finite False 73 3\<close>.
\<close>

datatype jsnum = NaN | Infinity bool | Finite bool nat int

datatype jsval =
    Undefined
  | Null
  | Bool bool
  | Num jsnum
  | Str string
  | Arr "jsval list"
  | Obj "(string \<times> jsval) list"

text \<open>An object: its own properties in the order they were created.\<close>

type_synonym jsobject = "(string \<times> jsval) list"

subsection \<open>Decimal text\<close>

definition digit_char :: "nat \<Rightarrow> char" where
  "digit_char d = ''0123456789'' ! (d mod 10)"

fun digits :: "nat \<Rightarrow> string" where
  "digits n = (if n < 10 then [digit_char n] else digits (n div 10) @ [digit_char (n mod 10)])"

declare digits.simps [simp del]

definition exponent_text :: "int \<Rightarrow> string" where
  "exponent_text e = (if e < 0 then ''-'' else ''+'') @ digits (nat \<bar>e\<bar>)"

text \<open>
  \<^verbatim>\<open>Number::toString\<close> of a positive finite number with digits \<open>ds\<close> (\<open>k\<close> of them)
  and point position \<open>n\<close>, case by case as ECMA-262 lists them.
\<close>

definition positive_text :: "string \<Rightarrow> int \<Rightarrow> string" where
  "positive_text ds n =
     (let k = int (length ds) in
      if k \<le> n \<and> n \<le> 21 then ds @ replicate (nat (n - k)) CHR ''0''
      else if 0 < n \<and> n \<le> 21 then take (nat n) ds @ ''.'' @ drop (nat n) ds
      else if - 6 < n \<and> n \<le> 0 then ''0.'' @ replicate (nat (- n)) CHR ''0'' @ ds
      else if k = 1 then ds @ ''e'' @ exponent_text (n - 1)
      else take 1 ds @ ''.'' @ drop 1 ds @ ''e'' @ exponent_text (n - 1))"

fun Number_toString :: "jsnum \<Rightarrow> string" where
  "Number_toString NaN = ''NaN''"
| "Number_toString (Infinity neg) = (if neg then ''-Infinity'' else ''Infinity'')"
| "Number_toString (Finite neg s n) =
     (if s = 0 then ''0''
      else (if neg then ''-'' else '''') @ positive_text (digits s) n)"

text \<open>
  An integer such as the value of \<^verbatim>\<open>Date.now()\<close> or an HTTP status, as a Number: its
  text is its decimal digits as long as there are at most 21 of them.
\<close>

definition Number_of_nat :: "nat \<Rightarrow> jsnum" where
  "Number_of_nat t = Finite False t (int (length (digits t)))"

subsection \<open>Conversion to string and truthiness\<close>

definition join :: "string \<Rightarrow> string list \<Rightarrow> string" where
  "join sep xs = (case xs of [] \<Rightarrow> [] | y # ys \<Rightarrow> foldl (\<lambda>acc z. acc @ sep @ z) y ys)"

text \<open>
  \<^verbatim>\<open>ToString\<close>: an array joins its elements with commas, \<^verbatim>\<open>null\<close> and
  \<^verbatim>\<open>undefined\<close> elements giving the empty string; a plain object is
  \<^verbatim>\<open>[object Object]\<close>.
\<close>

fun ToString :: "jsval \<Rightarrow> string" where
  "ToString Undefined = ''undefined''"
| "ToString Null = ''null''"
| "ToString (Bool b) = (if b then ''true'' else ''false'')"
| "ToString (Num x) = Number_toString x"
| "ToString (Str s) = s"
| "ToString (Arr xs) =
     join '','' (map (\<lambda>x. if x = Undefined \<or> x = Null then [] else ToString x) xs)"
| "ToString (Obj ps) = ''[object Object]''"

text \<open>\<^verbatim>\<open>!value\<close> is true for the falsy values.\<close>

fun falsy :: "jsval \<Rightarrow> bool" where
  "falsy Undefined = True"
| "falsy Null = True"
| "falsy (Bool b) = (\<not> b)"
| "falsy (Num NaN) = True"
| "falsy (Num (Infinity neg)) = False"
| "falsy (Num (Finite neg s n)) = (s = 0)"
| "falsy (Str s) = (s = [])"
| "falsy (Arr xs) = False"
| "falsy (Obj ps) = False"

text \<open>\<^verbatim>\<open>typeof value\<close>, for the values of the model.\<close>

fun typeof :: "jsval \<Rightarrow> string" where
  "typeof Undefined = ''undefined''"
| "typeof Null = ''object''"
| "typeof (Bool b) = ''boolean''"
| "typeof (Num x) = ''number''"
| "typeof (Str s) = ''string''"
| "typeof (Arr xs) = ''object''"
| "typeof (Obj ps) = ''object''"

subsection \<open>Objects: property order\<close>

text \<open>
  An array index is a canonical numeric string below \<open>2^32 - 1\<close>. The own properties of
  an object are enumerated with the array indices first, in ascending numeric order,
  and the other string keys after them in creation order.
\<close>

definition is_digit :: "char \<Rightarrow> bool" where
  "is_digit c = (CHR ''0'' \<le> c \<and> c \<le> CHR ''9'')"

definition digit_value :: "char \<Rightarrow> nat" where
  "digit_value c = of_char c - 48"

definition index_value :: "string \<Rightarrow> nat" where
  "index_value k = foldl (\<lambda>acc c. 10 * acc + digit_value c) 0 k"

definition is_array_index :: "string \<Rightarrow> bool" where
  "is_array_index k =
     (k \<noteq> [] \<and> list_all is_digit k \<and> (k = ''0'' \<or> hd k \<noteq> CHR ''0'')
      \<and> index_value k < 4294967295)"

definition own_entries :: "(string \<times> 'a) list \<Rightarrow> (string \<times> 'a) list" where
  "own_entries obj =
     sort_key (\<lambda>p. index_value (fst p)) (filter (\<lambda>p. is_array_index (fst p)) obj)
     @ filter (\<lambda>p. \<not> is_array_index (fst p)) obj"

definition Object_entries :: "jsobject \<Rightarrow> (string \<times> jsval) list" where
  "Object_entries obj = own_entries obj"

definition Object_values :: "jsobject \<Rightarrow> jsval list" where
  "Object_values obj = map snd (own_entries obj)"

text \<open>Defining a property: an existing key keeps its place, a new one is created last.\<close>

definition set_property :: "jsobject \<Rightarrow> string \<times> jsval \<Rightarrow> jsobject" where
  "set_property obj p =
     (if fst p \<in> fst ` set obj
      then map (\<lambda>q. if fst q = fst p then p else q) obj
      else obj @ [p])"

definition Object_fromEntries :: "(string \<times> jsval) list \<Rightarrow> jsobject" where
  "Object_fromEntries es = foldl set_property [] es"

text \<open>
  \<^verbatim>\<open>Array.prototype.sort()\<close> without a comparator orders the elements by their
  string conversions, compared code unit by code unit, and is stable. An entry
  \<^verbatim>\<open>[key, value]\<close> converts to the key, a comma and the value's text.
\<close>

definition entry_text :: "string \<times> jsval \<Rightarrow> string" where
  "entry_text p = ToString (Arr [Str (fst p), snd p])"

definition sort_entries :: "(string \<times> jsval) list \<Rightarrow> (string \<times> jsval) list" where
  "sort_entries es = sort_key entry_text es"

section \<open>HMAC with SHA-512\<close>

text \<open>
  \<^verbatim>\<open>createHmac('sha512', key)\<close> of Node's \<^verbatim>\<open>crypto\<close> module is HMAC (RFC 2104) over
  SHA-512 (FIPS 180-4), on bytes. The functions below compute it.
\<close>

type_synonym byte = "8 word"
type_synonym word64 = "64 word"

definition rotr :: "nat \<Rightarrow> word64 \<Rightarrow> word64" where
  "rotr n x = drop_bit n x OR push_bit (64 - n) x"

definition Ch :: "word64 \<Rightarrow> word64 \<Rightarrow> word64 \<Rightarrow> word64" where
  "Ch x y z = (x AND y) XOR (NOT x AND z)"

definition Maj :: "word64 \<Rightarrow> word64 \<Rightarrow> word64 \<Rightarrow> word64" where
  "Maj x y z = (x AND y) XOR (x AND z) XOR (y AND z)"

definition Sigma0 :: "word64 \<Rightarrow> word64" where
  "Sigma0 x = rotr 28 x XOR rotr 34 x XOR rotr 39 x"

definition Sigma1 :: "word64 \<Rightarrow> word64" where
  "Sigma1 x = rotr 14 x XOR rotr 18 x XOR rotr 41 x"

definition sigma0 :: "word64 \<Rightarrow> word64" where
  "sigma0 x = rotr 1 x XOR rotr 8 x XOR drop_bit 7 x"

definition sigma1 :: "word64 \<Rightarrow> word64" where
  "sigma1 x = rotr 19 x XOR rotr 61 x XOR drop_bit 6 x"

definition K512 :: "word64 list" where
  "K512 =
    [0x428A2F98D728AE22, 0x7137449123EF65CD, 0xB5C0FBCFEC4D3B2F, 0xE9B5DBA58189DBBC,
     0x3956C25BF348B538, 0x59F111F1B605D019, 0x923F82A4AF194F9B, 0xAB1C5ED5DA6D8118,
     0xD807AA98A3030242, 0x12835B0145706FBE, 0x243185BE4EE4B28C, 0x550C7DC3D5FFB4E2,
     0x72BE5D74F27B896F, 0x80DEB1FE3B1696B1, 0x9BDC06A725C71235, 0xC19BF174CF692694,
     0xE49B69C19EF14AD2, 0xEFBE4786384F25E3, 0x0FC19DC68B8CD5B5, 0x240CA1CC77AC9C65,
     0x2DE92C6F592B0275, 0x4A7484AA6EA6E483, 0x5CB0A9DCBD41FBD4, 0x76F988DA831153B5,
     0x983E5152EE66DFAB, 0xA831C66D2DB43210, 0xB00327C898FB213F, 0xBF597FC7BEEF0EE4,
     0xC6E00BF33DA88FC2, 0xD5A79147930AA725, 0x06CA6351E003826F, 0x142929670A0E6E70,
     0x27B70A8546D22FFC, 0x2E1B21385C26C926, 0x4D2C6DFC5AC42AED, 0x53380D139D95B3DF,
     0x650A73548BAF63DE, 0x766A0ABB3C77B2A8, 0x81C2C92E47EDAEE6, 0x92722C851482353B,
     0xA2BFE8A14CF10364, 0xA81A664BBC423001, 0xC24B8B70D0F89791, 0xC76C51A30654BE30,
     0xD192E819D6EF5218, 0xD69906245565A910, 0xF40E35855771202A, 0x106AA07032BBD1B8,
     0x19A4C116B8D2D0C8, 0x1E376C085141AB53, 0x2748774CDF8EEB99, 0x34B0BCB5E19B48A8,
     0x391C0CB3C5C95A63, 0x4ED8AA4AE3418ACB, 0x5B9CCA4F7763E373, 0x682E6FF3D6B2B8A3,
     0x748F82EE5DEFB2FC, 0x78A5636F43172F60, 0x84C87814A1F0AB72, 0x8CC702081A6439EC,
     0x90BEFFFA23631E28, 0xA4506CEBDE82BDE9, 0xBEF9A3F7B2C67915, 0xC67178F2E372532B,
     0xCA273ECEEA26619C, 0xD186B8C721C0C207, 0xEADA7DD6CDE0EB1E, 0xF57D4F7FEE6ED178,
     0x06F067AA72176FBA, 0x0A637DC5A2C898A6, 0x113F9804BEF90DAE, 0x1B710B35131C471B,
     0x28DB77F523047D84, 0x32CAAB7B40C72493, 0x3C9EBE0A15C9BEBC, 0x431D67C49C100D4C,
     0x4CC5D4BECB3E42B6, 0x597F299CFC657E2A, 0x5FCB6FAB3AD6FAEC, 0x6C44198C4A475817]"

definition H512 :: "word64 list" where
  "H512 =
    [0x6A09E667F3BCC908, 0xBB67AE8584CAA73B, 0x3C6EF372FE94F82B, 0xA54FF53A5F1D36F1,
     0x510E527FADE682D1, 0x9B05688C2B3E6C1F, 0x1F83D9ABFB41BD6B, 0x5BE0CD19137E2179]"

text \<open>
  Big-endian bytes of a number. Padding: the bit 1, zeros up to 112 modulo 128 bytes, the
  bit length on 16 bytes.
\<close>

fun be_bytes :: "nat \<Rightarrow> nat \<Rightarrow> byte list" where
  "be_bytes 0 v = []"
| "be_bytes (Suc len) v = be_bytes len (v div 256) @ [of_nat v]"

definition pad512 :: "byte list \<Rightarrow> byte list" where
  "pad512 msg =
     msg @ [0x80] @ replicate ((239 - length msg mod 128) mod 128) 0
     @ be_bytes 16 (8 * length msg)"

definition be_word :: "byte list \<Rightarrow> word64" where
  "be_word bs = foldl (\<lambda>acc b. push_bit 8 acc OR ucast b) 0 bs"

fun chunks :: "nat \<Rightarrow> nat \<Rightarrow> 'a list \<Rightarrow> 'a list list" where
  "chunks 0 len xs = []"
| "chunks (Suc count) len xs = take len xs # chunks count len (drop len xs)"

text \<open>
  The message schedule: the 16 words of the block, then each word from the 16 before it.
  The window holds the words \<open>t\<close> to \<open>t + 15\<close>; word \<open>t + 16\<close> is made of the words
  \<open>t + 14\<close>, \<open>t + 9\<close>, \<open>t + 1\<close> and \<open>t\<close>.
\<close>

fun schedule_from :: "nat \<Rightarrow> word64 list \<Rightarrow> word64 list" where
  "schedule_from 0 win = []"
| "schedule_from (Suc n) win =
     hd win # schedule_from n
       (tl win @ [sigma1 (win ! 14) + win ! 9 + sigma0 (win ! 1) + win ! 0])"

definition schedule :: "byte list \<Rightarrow> word64 list" where
  "schedule block = schedule_from 80 (map be_word (chunks 16 8 block))"

fun round512 :: "word64 list \<Rightarrow> word64 \<times> word64 \<Rightarrow> word64 list" where
  "round512 [a, b, c, d, e, f, g, h] (k, w) =
     (let t1 = h + Sigma1 e + Ch e f g + k + w;
          t2 = Sigma0 a + Maj a b c
      in [t1 + t2, a, b, c, d + t1, e, f, g])"
| "round512 st (k, w) = st"

definition compress :: "word64 list \<Rightarrow> byte list \<Rightarrow> word64 list" where
  "compress hs block = map2 (+) hs (foldl round512 hs (zip K512 (schedule block)))"

definition sha512 :: "byte list \<Rightarrow> byte list" where
  "sha512 msg =
     (let padded = pad512 msg
      in concat (map (\<lambda>h. be_bytes 8 (unat h))
                   (foldl compress H512 (chunks (length padded div 128) 128 padded))))"

definition hmac_sha512 :: "byte list \<Rightarrow> byte list \<Rightarrow> byte list" where
  "hmac_sha512 key msg =
     (let k0 = (if length key > 128 then sha512 key else key);
          k = k0 @ replicate (128 - length k0) 0
      in sha512 (map (\<lambda>b. b XOR 0x5C) k @ sha512 (map (\<lambda>b. b XOR 0x36) k @ msg)))"

text \<open>
  A word written as a numeral is the numeral modulo \<open>2^64\<close>; \<open>norm64\<close> marks the
  places where a computation on numerals reduces its result.
\<close>

definition norm64 :: "word64 \<Rightarrow> word64" where
  "norm64 x = x"

subsection \<open>Buffers and hexadecimal text\<close>

text \<open>\<^verbatim>\<open>Buffer.from(string)\<close> encodes in UTF-8: one byte below 128, two bytes up to 255.\<close>

definition utf8 :: "char \<Rightarrow> byte list" where
  "utf8 c =
     (let n = (of_char c :: nat)
      in if n < 128 then [of_nat n] else [of_nat (192 + n div 64), of_nat (128 + n mod 64)])"

definition Buffer_from :: "string \<Rightarrow> byte list" where
  "Buffer_from s = concat (map utf8 s)"

definition hex_char :: "nat \<Rightarrow> char" where
  "hex_char d = ''0123456789abcdef'' ! (d mod 16)"

definition hex :: "byte list \<Rightarrow> string" where
  "hex bs = concat (map (\<lambda>b. [hex_char (unat b div 16), hex_char (unat b mod 16)]) bs)"

text \<open>
  \<^verbatim>\<open>String.prototype.toLowerCase\<close> on the code units below 256: the letters A to Z and
  the capital letters of Latin-1 (U+00C0 to U+00DE, the sign U+00D7 apart) move up by 32.
\<close>

definition lower_char :: "char \<Rightarrow> char" where
  "lower_char c =
     (let n = (of_char c :: nat)
      in if (65 \<le> n \<and> n \<le> 90) \<or> (192 \<le> n \<and> n \<le> 222 \<and> n \<noteq> 215) then char_of (n + 32) else c)"

definition toLowerCase :: "string \<Rightarrow> string" where
  "toLowerCase s = map lower_char s"

section \<open>The client, the clock and the network\<close>

text \<open>
  What a call can throw: \<^verbatim>\<open>new Error(message)\<close> of the client itself, and the
  \<^verbatim>\<open>TypeError\<close> and \<^verbatim>\<open>ReferenceError\<close> of the language.
\<close>

datatype jserror = Error string | TypeError string | ReferenceError string

text \<open>The options of the constructor; an absent option is \<open>Undefined\<close>.\<close>

record options =
  opt_baseURL :: jsval
  opt_resultUrl :: jsval
  opt_failUrl :: jsval
  opt_successUrl :: jsval
  opt_priorityGame :: jsval
  opt_versionApi :: jsval
  opt_timeout :: jsval

text \<open>
  \<^verbatim>\<open>this.client.defaults.headers\<close>: the static \<^verbatim>\<open>apiKey\<close> header and the two slots
  \<^verbatim>\<open>X-Timestamp\<close> and \<^verbatim>\<open>X-Signature\<close>, absent until first written.
\<close>

record headers =
  hdr_apiKey :: string
  X_Timestamp :: "nat option"
  X_Signature :: "string option"

text \<open>The instance: the fields the constructor sets, lines 34 to 54.\<close>

record SkinvedAPI =
  apiKey :: string
  secretKey :: string
  baseURL :: jsval
  resultUrl :: jsval
  failUrl :: jsval
  successUrl :: jsval
  priorityGame :: jsval
  version :: jsval
  timeout :: jsval
  client_baseURL :: string
  client_headers :: headers

text \<open>
  A request as the transport receives it: the headers are those of the instance at the
  moment the request is issued. \<open>req_params\<close> are the query parameters (absent when the
  call passes none), \<open>req_data\<close> the body (\<open>Undefined\<close> when there is none).
\<close>

record request =
  req_method :: string
  req_baseURL :: string
  req_url :: string
  req_headers :: headers
  req_params :: "jsobject option"
  req_data :: jsval

record response =
  res_status :: nat
  res_data :: jsval

text \<open>
  What happens to a request: a response came back, the request went out and no response
  came, or the request could not be sent.
\<close>

datatype exchange = Responded response | NoResponse string | NotSent string

text \<open>
  The world outside the instance: the successive values of \<^verbatim>\<open>Date.now()\<close> and how
  many were read, the fate of each request in turn, the requests issued so far, oldest
  first, and the bindings of the global object of the process, where an identifier that
  no enclosing scope declares is looked up.
\<close>

record world =
  clock :: "nat \<Rightarrow> nat"
  reads :: nat
  network :: "nat \<Rightarrow> exchange"
  sent :: "request list"
  globals :: "string \<Rightarrow> jsval option"

definition Date_now :: "world \<Rightarrow> nat \<times> world" where
  "Date_now w = (clock w (reads w), w\<lparr>reads := Suc (reads w)\<rparr>)"

text \<open>\<^verbatim>\<open>a || b\<close>, and a parameter with a default value.\<close>

definition or_else :: "jsval \<Rightarrow> jsval \<Rightarrow> jsval" where
  "or_else a b = (if falsy a then b else a)"

definition default_to :: "jsval \<Rightarrow> jsval \<Rightarrow> jsval" where
  "default_to d a = (if a = Undefined then d else a)"

text \<open>
  An identifier evaluates to its binding in the nearest scope that has one: the scope of
  the method it occurs in, listed at each use below, then the enclosing scopes, and last
  the global object. The class body and the module declare only \<^verbatim>\<open>axios\<close>,
  \<^verbatim>\<open>qs\<close>, \<^verbatim>\<open>createHmac\<close> and \<^verbatim>\<open>SkinvedAPI\<close>, none of which the lookups below ask
  for, so the lookup goes from the method to the global object. With no binding anywhere
  the evaluation throws a \<^verbatim>\<open>ReferenceError\<close>.
\<close>

definition resolve ::
  "(string \<times> jsval) list \<Rightarrow> (string \<Rightarrow> jsval option) \<Rightarrow> string \<Rightarrow> jserror + jsval" where
  "resolve scope global name =
     (case map_of scope name of
        Some v \<Rightarrow> Inr v
      | None \<Rightarrow>
          (case global name of
             Some v \<Rightarrow> Inr v
           | None \<Rightarrow> Inl (ReferenceError (name @ '' is not defined''))))"

text \<open>
  Reading a property \<^verbatim>\<open>value.name\<close>, for the names the client reads (\<^verbatim>\<open>trade_id\<close>,
  \<^verbatim>\<open>data\<close>): a \<^verbatim>\<open>TypeError\<close> on \<^verbatim>\<open>undefined\<close> and \<^verbatim>\<open>null\<close>, the property of an
  object, \<^verbatim>\<open>undefined\<close> where there is none.
\<close>

definition get_property :: "jsval \<Rightarrow> string \<Rightarrow> jserror + jsval" where
  "get_property v name =
     (case v of
        Undefined \<Rightarrow>
          Inl (TypeError (''Cannot read properties of undefined (reading '' @ [CHR 0x27] @ name @ [CHR 0x27] @ '')''))
      | Null \<Rightarrow>
          Inl (TypeError (''Cannot read properties of null (reading '' @ [CHR 0x27] @ name @ [CHR 0x27] @ '')''))
      | Obj ps \<Rightarrow> Inr (case map_of ps name of Some x \<Rightarrow> x | None \<Rightarrow> Undefined)
      | _ \<Rightarrow> Inr Undefined)"

section \<open>The signature generator\<close>

text \<open>
  \<^verbatim>\<open>#generateSignature\<close>, lines 327 to 345. \<open>sortedData\<close> is the object rebuilt from
  the sorted entries; the loop appends the text of every value that is not skipped;
  the timestamp read inside the generator is appended, the whole is put in lower case
  and the digest is returned in hexadecimal. Nothing but the digest is returned.
\<close>

definition sortedData :: "jsobject \<Rightarrow> jsobject" where
  "sortedData data = Object_fromEntries (sort_entries (Object_entries data))"

definition skipped :: "jsval \<Rightarrow> bool" where
  "skipped v = (typeof v \<in> set [''array'', ''object'', ''undefined''] \<or> v = Null)"

definition append_value :: "string \<Rightarrow> jsval \<Rightarrow> string" where
  "append_value acc v =
     (if skipped v then acc
      else if typeof v = ''boolean'' then acc @ (if v = Bool True then ''true'' else ''false'')
      else acc @ ToString v)"

definition stringData :: "jsobject \<Rightarrow> string" where
  "stringData data = foldl append_value [] (Object_values (sortedData data))"

definition signed_material :: "jsobject \<Rightarrow> nat \<Rightarrow> string" where
  "signed_material data timestamp =
     toLowerCase (stringData data @ ToString (Num (Number_of_nat timestamp)))"

definition signature_at :: "string \<Rightarrow> jsobject \<Rightarrow> nat \<Rightarrow> string" where
  "signature_at key data timestamp =
     hex (hmac_sha512 (Buffer_from key) (Buffer_from (signed_material data timestamp)))"

definition generateSignature :: "SkinvedAPI \<Rightarrow> jsobject \<Rightarrow> world \<Rightarrow> string \<times> world" where
  "generateSignature this data w =
     (let (timestamp, w1) = Date_now w
      in (signature_at (secretKey this) data timestamp, w1))"

section \<open>The transport and the response interceptor\<close>

subsection \<open>\<^verbatim>\<open>JSON.stringify\<close>\<close>

definition json_escape :: "char \<Rightarrow> string" where
  "json_escape c =
     (let n = (of_char c :: nat)
      in if n = 0x22 then [CHR 0x5C, CHR 0x22]
         else if n = 0x5C then [CHR 0x5C, CHR 0x5C]
         else if n = 0x08 then [CHR 0x5C, CHR ''b'']
         else if n = 0x09 then [CHR 0x5C, CHR ''t'']
         else if n = 0x0A then [CHR 0x5C, CHR ''n'']
         else if n = 0x0C then [CHR 0x5C, CHR ''f'']
         else if n = 0x0D then [CHR 0x5C, CHR ''r'']
         else if n < 0x20 then [CHR 0x5C, CHR ''u'', CHR ''0'', CHR ''0'', hex_char (n div 16), hex_char n]
         else [c])"

definition json_quote :: "string \<Rightarrow> string" where
  "json_quote s = [CHR 0x22] @ concat (map json_escape s) @ [CHR 0x22]"

text \<open>
  The result is absent (\<open>None\<close>) for \<^verbatim>\<open>undefined\<close>; an absent element of an array
  is written \<^verbatim>\<open>null\<close>, a property with an absent value is left out.
\<close>

fun JSON_stringify :: "jsval \<Rightarrow> string option" where
  "JSON_stringify Undefined = None"
| "JSON_stringify Null = Some ''null''"
| "JSON_stringify (Bool b) = Some (if b then ''true'' else ''false'')"
| "JSON_stringify (Num x) =
     Some (case x of Finite neg s n \<Rightarrow> Number_toString x | _ \<Rightarrow> ''null'')"
| "JSON_stringify (Str s) = Some (json_quote s)"
| "JSON_stringify (Arr xs) =
     Some (''['' @ join '','' (map (\<lambda>x. case JSON_stringify x of None \<Rightarrow> ''null'' | Some t \<Rightarrow> t) xs) @ '']'')"
| "JSON_stringify (Obj ps) =
     Some (''{'' @ join '',''
        (concat (map (\<lambda>p. case snd p of None \<Rightarrow> [] | Some t \<Rightarrow> [json_quote (fst p) @ '':'' @ t])
           (own_entries (map (\<lambda>p. (fst p, JSON_stringify (snd p))) ps)))) @ ''}'')"

text \<open>A value inside a template literal: \<^verbatim>\<open>undefined\<close> is spelled out.\<close>

definition template_text :: "string option \<Rightarrow> string" where
  "template_text t = (case t of None \<Rightarrow> ''undefined'' | Some x \<Rightarrow> x)"

subsection \<open>The transport\<close>

text \<open>
  The error the transport (axios) rejects with: the response when one was received, whether
  a request was made, and a message. A response settles the request: with a status from
  200 to 299 the request is fulfilled, with any other it is rejected with the response.
\<close>

record axios_error =
  err_response :: "response option"
  err_request :: bool
  err_message :: string

definition settle :: "exchange \<Rightarrow> axios_error + response" where
  "settle x =
     (case x of
        Responded r \<Rightarrow>
          if 200 \<le> res_status r \<and> res_status r < 300 then Inr r
          else Inl \<lparr>err_response = Some r, err_request = True,
                     err_message = ''Request failed with status code '' @ digits (res_status r)\<rparr>
      | NoResponse m \<Rightarrow> Inl \<lparr>err_response = None, err_request = True, err_message = m\<rparr>
      | NotSent m \<Rightarrow> Inl \<lparr>err_response = None, err_request = False, err_message = m\<rparr>)"

text \<open>The response interceptor, lines 56 to 65.\<close>

definition interceptor :: "axios_error + response \<Rightarrow> jserror + response" where
  "interceptor outcome =
     (case outcome of
        Inr r \<Rightarrow> Inr r
      | Inl e \<Rightarrow>
          (case err_response e of
             Some r \<Rightarrow>
               Inl (Error (''SkinVend API Error: '' @ ToString (Num (Number_of_nat (res_status r)))
                           @ '' - '' @ template_text (JSON_stringify (res_data r))))
           | None \<Rightarrow>
               if err_request e then Inl (Error ''SkinVend API Error: No response received'')
               else Inl (Error (''SkinVend API Error: '' @ err_message e))))"

text \<open>Writing the two header slots, as every signing site does.\<close>

definition set_X_Timestamp :: "SkinvedAPI \<Rightarrow> nat \<Rightarrow> SkinvedAPI" where
  "set_X_Timestamp this t = this\<lparr>client_headers := (client_headers this)\<lparr>X_Timestamp := Some t\<rparr>\<rparr>"

definition set_X_Signature :: "SkinvedAPI \<Rightarrow> string \<Rightarrow> SkinvedAPI" where
  "set_X_Signature this sig = this\<lparr>client_headers := (client_headers this)\<lparr>X_Signature := Some sig\<rparr>\<rparr>"

text \<open>
  \<^verbatim>\<open>paramsSerializer\<close>, lines 48 to 53: it writes the two slots of the instance and
  returns the query text of \<^verbatim>\<open>qs.stringify\<close>, which the model leaves out (the request
  keeps the parameter object).
\<close>

definition paramsSerializer :: "SkinvedAPI \<Rightarrow> jsobject \<Rightarrow> world \<Rightarrow> SkinvedAPI \<times> world" where
  "paramsSerializer this params w =
     (let (t, w1) = Date_now w;
          this1 = set_X_Timestamp this t;
          (sig, w2) = generateSignature this1 params w1
      in (set_X_Signature this1 sig, w2))"

text \<open>
  One request of the instance \<^verbatim>\<open>this.client\<close>. The transport merges the headers of the
  instance into the request when the request is issued; it serializes the query
  parameters afterwards, when it builds the URL, and only when the call passes
  parameters. The outcome passes through the interceptor.
\<close>

definition client_request ::
  "SkinvedAPI \<Rightarrow> string \<Rightarrow> string \<Rightarrow> jsobject option \<Rightarrow> jsval \<Rightarrow> world
     \<Rightarrow> (jserror + response) \<times> SkinvedAPI \<times> world" where
  "client_request this method url params body w =
     (let config = \<lparr>req_method = method, req_baseURL = client_baseURL this, req_url = url,
                     req_headers = client_headers this, req_params = params, req_data = body\<rparr>;
          (this1, w1) = (case params of None \<Rightarrow> (this, w) | Some p \<Rightarrow> paramsSerializer this p w);
          outcome = settle (network w1 (length (sent w1)))
      in (interceptor outcome, this1, w1\<lparr>sent := sent w1 @ [config]\<rparr>))"

definition client_get ::
  "SkinvedAPI \<Rightarrow> string \<Rightarrow> jsobject option \<Rightarrow> world \<Rightarrow> (jserror + response) \<times> SkinvedAPI \<times> world" where
  "client_get this url params w = client_request this ''get'' url params Undefined w"

definition client_post ::
  "SkinvedAPI \<Rightarrow> string \<Rightarrow> jsval \<Rightarrow> world \<Rightarrow> (jserror + response) \<times> SkinvedAPI \<times> world" where
  "client_post this url body w = client_request this ''post'' url None body w"

definition client_patch ::
  "SkinvedAPI \<Rightarrow> string \<Rightarrow> jsval \<Rightarrow> world \<Rightarrow> (jserror + response) \<times> SkinvedAPI \<times> world" where
  "client_patch this url body w = client_request this ''patch'' url None body w"

section \<open>The client\<close>

text \<open>
  The constructor, lines 26 to 54. The two credentials are strings; \<open>None\<close> is an
  absent argument.
\<close>

definition not_given :: "string option \<Rightarrow> bool" where
  "not_given a = (case a of None \<Rightarrow> True | Some s \<Rightarrow> s = [])"

definition constructor :: "string option \<Rightarrow> string option \<Rightarrow> options \<Rightarrow> jserror + SkinvedAPI" where
  "constructor api_key secret_key opts =
     (if not_given api_key then Inl (Error ''API key is required'')
      else if not_given secret_key then Inl (Error ''Secret Key is required'')
      else
        let base = or_else (opt_baseURL opts) (Str ''https://skinvend.io'');
            ver = or_else (opt_versionApi opts) (Str ''v1'')
        in Inr \<lparr>apiKey = the api_key,
                 secretKey = the secret_key,
                 baseURL = base,
                 resultUrl = or_else (opt_resultUrl opts) (Str []),
                 failUrl = or_else (opt_failUrl opts) (Str []),
                 successUrl = or_else (opt_successUrl opts) (Str []),
                 priorityGame = or_else (opt_priorityGame opts) (Num (Finite False 73 3)),
                 version = ver,
                 timeout = or_else (opt_timeout opts) (Num (Finite False 1 5)),
                 client_baseURL = ToString base @ ''/'' @ ToString ver @ ''/api'',
                 client_headers = \<lparr>hdr_apiKey = the api_key, X_Timestamp = None, X_Signature = None\<rparr>\<rparr>)"

text \<open>The two statements that precede a signed POST or PATCH, as at lines 93 and 94.\<close>

definition sign_headers :: "SkinvedAPI \<Rightarrow> jsobject \<Rightarrow> world \<Rightarrow> SkinvedAPI \<times> world" where
  "sign_headers this params w =
     (let (t, w1) = Date_now w;
          this1 = set_X_Timestamp this t;
          (sig, w2) = generateSignature this1 params w1
      in (set_X_Signature this1 sig, w2))"

text \<open>\<^verbatim>\<open>const {data} = await ...; return data\<close>.\<close>

definition return_data ::
  "(jserror + response) \<times> SkinvedAPI \<times> world \<Rightarrow> (jserror + jsval) \<times> SkinvedAPI \<times> world" where
  "return_data r =
     (case r of (Inl e, this, w) \<Rightarrow> (Inl e, this, w)
              | (Inr res, this, w) \<Rightarrow> (Inr (res_data res), this, w))"

text \<open>\<^verbatim>\<open>CreateDeposit\<close>, lines 76 to 99.\<close>

definition CreateDeposit ::
  "SkinvedAPI \<Rightarrow> jsval \<Rightarrow> jsval \<Rightarrow> jsval \<Rightarrow> jsval \<Rightarrow> world \<Rightarrow> (jserror + jsval) \<times> SkinvedAPI \<times> world" where
  "CreateDeposit this deposit_id steam_id trade_url min_amount w =
     (if falsy deposit_id then (Inl (Error ''Deposit ID is required''), this, w)
      else
        let params =
              [(''deposit_id'', deposit_id),
               (''steam_id'', default_to Null steam_id),
               (''trade_url'', default_to (Str []) trade_url),
               (''min_amount'', default_to (Num (Finite False 5 0)) min_amount),
               (''result_url'', resultUrl this),
               (''fail_url'', failUrl this),
               (''success_url'', successUrl this),
               (''priority_game'', priorityGame this)];
            (this1, w1) = sign_headers this params w
        in return_data (client_post this1 ''deposit'' (Obj params) w1))"

text \<open>
  \<^verbatim>\<open>CreateOffer\<close>, lines 110 to 140. The body of the second request is the identifier
  \<^verbatim>\<open>params\<close>, which the method does not declare: it is looked up in the scope of the
  method and then in the global object. The result of the second request is destructured
  as \<^verbatim>\<open>{result}\<close>, a property that the response of the transport does not have.
\<close>

definition CreateOffer ::
  "SkinvedAPI \<Rightarrow> jsval \<Rightarrow> jsval \<Rightarrow> jsval \<Rightarrow> jsval \<Rightarrow> jsval \<Rightarrow> world
     \<Rightarrow> (jserror + jsval) \<times> SkinvedAPI \<times> world" where
  "CreateOffer this deposit_id steam_id0 app_id0 trade_url0 item_array0 w =
     (let steam_id = default_to Null steam_id0;
          app_id = default_to (priorityGame this) app_id0;
          trade_url = default_to (Str []) trade_url0;
          item_array = default_to (Arr []) item_array0
      in
      if falsy deposit_id then (Inl (Error ''Deposit ID is required''), this, w)
      else
        let DepositParams = [(''deposit_id'', deposit_id), (''steam_id'', steam_id)];
            (this1, w1) = sign_headers this DepositParams w;
            (first, this2, w2) = client_post this1 ''deposit'' (Obj DepositParams) w1
        in
        case first of
          Inl e \<Rightarrow> (Inl e, this2, w2)
        | Inr response1 \<Rightarrow>
            (case get_property (res_data response1) ''trade_id'' of
               Inl e \<Rightarrow> (Inl e, this2, w2)
             | Inr trade_id \<Rightarrow>
                 let TradeParams =
                       [(''app_id'', app_id), (''trade_id'', trade_id),
                        (''trade_url'', trade_url), (''item_array'', item_array)];
                     (this3, w3) = sign_headers this2 TradeParams w2;
                     scope =
                       [(''deposit_id'', deposit_id), (''steam_id'', steam_id), (''app_id'', app_id),
                        (''trade_url'', trade_url), (''item_array'', item_array),
                        (''DepositParams'', Obj DepositParams), (''data'', res_data response1),
                        (''TradeParams'', Obj TradeParams)]
                 in
                 case resolve scope (globals w3) ''params'' of
                   Inl e \<Rightarrow> (Inl e, this3, w3)
                 | Inr params \<Rightarrow>
                     let (second, this4, w4) = client_post this3 ''deposit'' params w3
                     in
                     case second of
                       Inl e \<Rightarrow> (Inl e, this4, w4)
                     | Inr response2 \<Rightarrow>
                         (case get_property Undefined ''data'' of
                            Inl e \<Rightarrow> (Inl e, this4, w4)
                          | Inr v \<Rightarrow> (Inr v, this4, w4))))"

text \<open>\<^verbatim>\<open>GetStatusDeposit\<close>, lines 147 to 154.\<close>

definition GetStatusDeposit ::
  "SkinvedAPI \<Rightarrow> jsval \<Rightarrow> world \<Rightarrow> (jserror + jsval) \<times> SkinvedAPI \<times> world" where
  "GetStatusDeposit this trade_id w =
     (if falsy trade_id then (Inl (Error ''Trade ID is required''), this, w)
      else return_data (client_get this ''deposit/status'' (Some [(''trade_id'', trade_id)]) w))"

text \<open>\<^verbatim>\<open>GetHistoryDeposits\<close>, lines 162 to 169.\<close>

definition GetHistoryDeposits ::
  "SkinvedAPI \<Rightarrow> jsval \<Rightarrow> jsval \<Rightarrow> world \<Rightarrow> (jserror + jsval) \<times> SkinvedAPI \<times> world" where
  "GetHistoryDeposits this start_date end_date w =
     (if falsy start_date \<or> falsy end_date
      then (Inl (Error ''Date (start_date | end_date) is required''), this, w)
      else return_data (client_get this ''deposit/history''
             (Some [(''start_date'', start_date), (''end_date'', end_date)]) w))"

text \<open>\<^verbatim>\<open>GetSkinsDeposit\<close>, lines 176 to 183.\<close>

definition GetSkinsDeposit ::
  "SkinvedAPI \<Rightarrow> jsval \<Rightarrow> world \<Rightarrow> (jserror + jsval) \<times> SkinvedAPI \<times> world" where
  "GetSkinsDeposit this trade_id w =
     (if falsy trade_id then (Inl (Error ''Trade ID is required''), this, w)
      else return_data (client_get this ''inventory'' (Some [(''trade_id'', trade_id)]) w))"

text \<open>\<^verbatim>\<open>GetProjectBalance\<close>, lines 190 to 194: a GET without parameters.\<close>

definition GetProjectBalance ::
  "SkinvedAPI \<Rightarrow> world \<Rightarrow> (jserror + jsval) \<times> SkinvedAPI \<times> world" where
  "GetProjectBalance this w = return_data (client_get this ''project/balance'' None w)"

text \<open>\<^verbatim>\<open>SetProjectRate\<close>, lines 201 to 206; it returns nothing.\<close>

definition SetProjectRate ::
  "SkinvedAPI \<Rightarrow> jsval \<Rightarrow> world \<Rightarrow> (jserror + jsval) \<times> SkinvedAPI \<times> world" where
  "SetProjectRate this coin_rate w =
     (let (this1, w1) = sign_headers this [(''coin_rate'', coin_rate)] w;
          (r, this2, w2) = client_patch this1 ''project/balance'' (Obj [(''coin_rate'', coin_rate)]) w1
      in case r of Inl e \<Rightarrow> (Inl e, this2, w2) | Inr res \<Rightarrow> (Inr Undefined, this2, w2))"

text \<open>\<^verbatim>\<open>GetClientSteamInvetory\<close>, lines 214 to 227.\<close>

definition GetClientSteamInvetory ::
  "SkinvedAPI \<Rightarrow> jsval \<Rightarrow> jsval \<Rightarrow> jsval \<Rightarrow> world \<Rightarrow> (jserror + jsval) \<times> SkinvedAPI \<times> world" where
  "GetClientSteamInvetory this steam_id refresh0 app_id0 w =
     (let refresh = default_to (Bool False) refresh0;
          app_id = default_to (priorityGame this) app_id0
      in if falsy steam_id then (Inl (Error ''SteamID is required''), this, w)
         else return_data (client_get this ''inventory''
                (Some [(''app_id'', app_id), (''steam_id'', steam_id), (''refresh'', refresh)]) w))"

text \<open>\<^verbatim>\<open>SearchSkins\<close>, lines 236 to 243.\<close>

definition SearchSkins ::
  "SkinvedAPI \<Rightarrow> jsval \<Rightarrow> jsval \<Rightarrow> jsval \<Rightarrow> world \<Rightarrow> (jserror + jsval) \<times> SkinvedAPI \<times> world" where
  "SearchSkins this app_id0 id0 name0 w =
     (let app_id = default_to (priorityGame this) app_id0;
          ident = default_to Null id0;
          name = default_to Null name0
      in if falsy app_id then (Inl (Error ''Deposit ID is required''), this, w)
         else return_data (client_get this ''items/search''
                (Some [(''app_id'', app_id), (''id'', ident), (''name'', name)]) w))"

text \<open>\<^verbatim>\<open>CheckBotStatus\<close>, lines 250 to 257.\<close>

definition CheckBotStatus ::
  "SkinvedAPI \<Rightarrow> jsval \<Rightarrow> world \<Rightarrow> (jserror + jsval) \<times> SkinvedAPI \<times> world" where
  "CheckBotStatus this tradeUrl w =
     (if falsy tradeUrl then (Inl (Error ''Deposit ID is required''), this, w)
      else return_data (client_get this ''check-user-ability'' (Some [(''tradeUrl'', tradeUrl)]) w))"

text \<open>
  \<^verbatim>\<open>BuySkin\<close>, lines 270 to 291. The check at line 272 evaluates the identifier
  \<^verbatim>\<open>trade_id\<close>, which the method does not declare: it is looked up in the scope of
  the method, whose bindings are its seven parameters, and then in the global object.
\<close>

definition BuySkin ::
  "SkinvedAPI \<Rightarrow> jsval \<Rightarrow> jsval \<Rightarrow> jsval \<Rightarrow> jsval \<Rightarrow> jsval \<Rightarrow> jsval \<Rightarrow> jsval \<Rightarrow> world
     \<Rightarrow> (jserror + jsval) \<times> SkinvedAPI \<times> world" where
  "BuySkin this internal_id partner partner_token app_id0 max_price0 item_id0 full_name0 w =
     (let app_id = default_to (priorityGame this) app_id0;
          max_price = default_to (Num (Finite False 1 1)) max_price0;
          item_id = default_to (Str []) item_id0;
          full_name = default_to (Str []) full_name0;
          scope =
            [(''internal_id'', internal_id), (''partner'', partner),
             (''partner_token'', partner_token), (''app_id'', app_id),
             (''max_price'', max_price), (''item_id'', item_id), (''full_name'', full_name)]
      in
      case resolve scope (globals w) ''trade_id'' of
        Inl e \<Rightarrow> (Inl e, this, w)
      | Inr trade_id \<Rightarrow>
          if falsy trade_id then (Inl (Error ''Trade ID is required''), this, w)
          else
            let params =
                  [(''internal_id'', internal_id), (''partner'', partner),
                   (''partner_token'', partner_token), (''app_id'', app_id),
                   (''max_price'', max_price), (''item_id'', item_id), (''full_name'', full_name)];
                (this1, w1) = sign_headers this params w
            in return_data (client_post this1 ''withdraw/buy'' (Obj params) w1))"

text \<open>\<^verbatim>\<open>PurchaseStatus\<close>, lines 299 to 306.\<close>

definition PurchaseStatus ::
  "SkinvedAPI \<Rightarrow> jsval \<Rightarrow> jsval \<Rightarrow> world \<Rightarrow> (jserror + jsval) \<times> SkinvedAPI \<times> world" where
  "PurchaseStatus this internal_ids trade_ids w =
     (if falsy internal_ids \<or> falsy trade_ids
      then (Inl (Error ''trade_ids | trade_ids is required''), this, w)
      else return_data (client_get this ''withdraw/status''
             (Some [(''internal_ids'', internal_ids), (''trade_ids'', trade_ids)]) w))"

text \<open>\<^verbatim>\<open>PurchaseHistory\<close>, lines 314 to 321.\<close>

definition PurchaseHistory ::
  "SkinvedAPI \<Rightarrow> jsval \<Rightarrow> jsval \<Rightarrow> world \<Rightarrow> (jserror + jsval) \<times> SkinvedAPI \<times> world" where
  "PurchaseHistory this start_date end_date w =
     (if falsy start_date \<or> falsy end_date
      then (Inl (Error ''start_date | end_date is required''), this, w)
      else return_data (client_get this ''withdraw/history''
             (Some [(''start_date'', start_date), (''end_date'', end_date)]) w))"

section \<open>Calls in flight\<close>

text \<open>
  A call that reaches the transport runs in two parts, and nothing else runs inside a
  part. The first part is the code of the method up to its \<^verbatim>\<open>await\<close>: it ends inside
  \<^verbatim>\<open>this.client.post\<close> or \<^verbatim>\<open>this.client.get\<close>, when the transport has merged the
  headers of the instance into the request. The second part is the transport's own, run
  later: it serializes the query parameters, if any, and puts the request on the wire.
  Between the two parts of one call, parts of other calls on the same instance may run.

  Two shapes of call cover the methods of the client: a POST that signs at lines such as
  93 and 94 before it calls the transport, and a GET with query parameters, which leaves
  the signing to \<^verbatim>\<open>paramsSerializer\<close>.
\<close>

datatype call = Signed_post string jsobject | Query_get string jsobject

definition prepare :: "SkinvedAPI \<Rightarrow> string \<Rightarrow> string \<Rightarrow> jsobject option \<Rightarrow> jsval \<Rightarrow> request" where
  "prepare this method url params body =
     \<lparr>req_method = method, req_baseURL = client_baseURL this, req_url = url,
      req_headers = client_headers this, req_params = params, req_data = body\<rparr>"

definition transmit ::
  "request \<Rightarrow> SkinvedAPI \<Rightarrow> world \<Rightarrow> (jserror + response) \<times> SkinvedAPI \<times> world" where
  "transmit config this w =
     (interceptor (settle (network w (length (sent w)))), this, w\<lparr>sent := sent w @ [config]\<rparr>)"

definition start :: "call \<Rightarrow> SkinvedAPI \<Rightarrow> world \<Rightarrow> request \<times> SkinvedAPI \<times> world" where
  "start c this w =
     (case c of
        Signed_post url ps \<Rightarrow>
          let (this1, w1) = sign_headers this ps w
          in (prepare this1 ''post'' url None (Obj ps), this1, w1)
      | Query_get url ps \<Rightarrow> (prepare this ''get'' url (Some ps) Undefined, this, w))"

definition finish ::
  "call \<Rightarrow> request \<Rightarrow> SkinvedAPI \<Rightarrow> world \<Rightarrow> (jserror + response) \<times> SkinvedAPI \<times> world" where
  "finish c config this w =
     (case c of
        Signed_post url ps \<Rightarrow> transmit config this w
      | Query_get url ps \<Rightarrow>
          let (this1, w1) = paramsSerializer this ps w in transmit config this1 w1)"

text \<open>
  Two calls on one instance. The session keeps, for each call, the request fixed by its
  first part and the pair of timestamp and signature that the call's own signing wrote
  to the slots of the instance.
\<close>

datatype party = First | Second

datatype step = Start party | Finish party

definition header_pair :: "headers \<Rightarrow> nat option \<times> string option" where
  "header_pair h = (X_Timestamp h, X_Signature h)"

record session =
  the_client :: SkinvedAPI
  the_world :: world
  in_flight :: "party \<Rightarrow> request option"
  own_pair :: "party \<Rightarrow> (nat option \<times> string option) option"

definition new_session :: "SkinvedAPI \<Rightarrow> world \<Rightarrow> session" where
  "new_session this w =
     \<lparr>the_client = this, the_world = w, in_flight = (\<lambda>p. None), own_pair = (\<lambda>p. None)\<rparr>"

definition run_step :: "(party \<Rightarrow> call) \<Rightarrow> session \<Rightarrow> step \<Rightarrow> session" where
  "run_step calls s st =
     (case st of
        Start p \<Rightarrow>
          let (config, this1, w1) = start (calls p) (the_client s) (the_world s)
          in s\<lparr>the_client := this1, the_world := w1,
               in_flight := (in_flight s)(p := Some config),
               own_pair :=
                 (case calls p of
                    Signed_post url ps \<Rightarrow> (own_pair s)(p := Some (header_pair (client_headers this1)))
                  | Query_get url ps \<Rightarrow> own_pair s)\<rparr>
      | Finish p \<Rightarrow>
          (case in_flight s p of
             None \<Rightarrow> s
           | Some config \<Rightarrow>
               let (result, this1, w1) = finish (calls p) config (the_client s) (the_world s)
               in s\<lparr>the_client := this1, the_world := w1,
                    own_pair :=
                      (case calls p of
                         Signed_post url ps \<Rightarrow> own_pair s
                       | Query_get url ps \<Rightarrow>
                           (own_pair s)(p := Some (header_pair (client_headers this1))))\<rparr>))"

definition run :: "(party \<Rightarrow> call) \<Rightarrow> step list \<Rightarrow> session \<Rightarrow> session" where
  "run calls steps s = foldl (run_step calls) s steps"

text \<open>The six orders in which the four parts of two calls can run.\<close>

definition schedules :: "step list list" where
  "schedules =
     [[Start First, Finish First, Start Second, Finish Second],
      [Start First, Start Second, Finish First, Finish Second],
      [Start First, Start Second, Finish Second, Finish First],
      [Start Second, Finish Second, Start First, Finish First],
      [Start Second, Start First, Finish Second, Finish First],
      [Start Second, Start First, Finish First, Finish Second]]"

text \<open>The request of a call went out with the pair that the call itself computed.\<close>

definition carries_own_pair :: "session \<Rightarrow> party \<Rightarrow> bool" where
  "carries_own_pair s p =
     (case (in_flight s p, own_pair s p) of
        (Some config, Some pair) \<Rightarrow> header_pair (req_headers config) = pair
      | _ \<Rightarrow> False)"

text \<open>The request of a call went out with a pair other than the one the call computed.\<close>

definition carries_other_pair :: "session \<Rightarrow> party \<Rightarrow> bool" where
  "carries_other_pair s p =
     (case (in_flight s p, own_pair s p) of
        (Some config, Some pair) \<Rightarrow> header_pair (req_headers config) \<noteq> pair
      | _ \<Rightarrow> False)"

definition two_calls :: "call \<Rightarrow> call \<Rightarrow> party \<Rightarrow> call" where
  "two_calls a b p = (case p of First \<Rightarrow> a | Second \<Rightarrow> b)"

section \<open>A client and a world to run the calls in\<close>

definition no_options :: options where
  "no_options =
     \<lparr>opt_baseURL = Undefined, opt_resultUrl = Undefined, opt_failUrl = Undefined,
      opt_successUrl = Undefined, opt_priorityGame = Undefined, opt_versionApi = Undefined,
      opt_timeout = Undefined\<rparr>"

text \<open>\<^verbatim>\<open>new SkinvedAPI('k3y', 's3cr3t')\<close>.\<close>

definition example_client :: SkinvedAPI where
  "example_client =
     \<lparr>apiKey = ''k3y'', secretKey = ''s3cr3t'',
      baseURL = Str ''https://skinvend.io'',
      resultUrl = Str [], failUrl = Str [], successUrl = Str [],
      priorityGame = Num (Finite False 73 3), version = Str ''v1'',
      timeout = Num (Finite False 1 5),
      client_baseURL = ''https://skinvend.io/v1/api'',
      client_headers = \<lparr>hdr_apiKey = ''k3y'', X_Timestamp = None, X_Signature = None\<rparr>\<rparr>"

text \<open>
  A world in which the clock shows 1700000000000 at its first reading and advances by a
  millisecond at each reading, in which every request is answered with status 200 and the
  payload \<^verbatim>\<open>{"trade_id": "T1"}\<close>, and in which the global object binds neither
  \<^verbatim>\<open>trade_id\<close> nor \<^verbatim>\<open>params\<close> (as in a Node process that runs the module as it is).
\<close>

definition ticking_world :: world where
  "ticking_world =
     \<lparr>clock = (\<lambda>i. 1700000000000 + i), reads = 0,
      network = (\<lambda>i. Responded \<lparr>res_status = 200, res_data = Obj [(''trade_id'', Str ''T1'')]\<rparr>),
      sent = [], globals = (\<lambda>name. None)\<rparr>"

section \<open>Vocabulary of the properties\<close>

text \<open>
  The values the specification lists as left out of the canonical string: \<^verbatim>\<open>null\<close>,
  \<^verbatim>\<open>undefined\<close>, arrays and objects. The code's own test is \<open>skipped\<close>.
\<close>

fun omitted :: "jsval \<Rightarrow> bool" where
  "omitted Undefined = True"
| "omitted Null = True"
| "omitted (Arr xs) = True"
| "omitted (Obj ps) = True"
| "omitted v = False"

text \<open>
  A plain key: every character comes after the comma in code unit order (letters, digits,
  the underscore, the hyphen and the dot do), and the key is not an array index. All the
  parameter names of the client are plain.
\<close>

definition plain_key :: "string \<Rightarrow> bool" where
  "plain_key k = (list_all (\<lambda>c. CHR '','' < c) k \<and> \<not> is_array_index k)"

text \<open>The parameters of \<^verbatim>\<open>CreateDeposit('D1')\<close> on the example client.\<close>

definition deposit_D1 :: jsobject where
  "deposit_D1 =
     [(''deposit_id'', Str ''D1''), (''steam_id'', Null), (''trade_url'', Str []),
      (''min_amount'', Num (Finite False 5 0)), (''result_url'', Str []), (''fail_url'', Str []),
      (''success_url'', Str []), (''priority_game'', Num (Finite False 73 3))]"

section \<open>Evaluation\<close>

lemmas canon_eval =
  stringData_def sortedData_def Object_values_def Object_entries_def own_entries_def
  is_array_index_def is_digit_def sort_entries_def entry_text_def join_def
  Object_fromEntries_def set_property_def append_value_def skipped_def
  positive_text_def digits.simps digit_char_def index_value_def digit_value_def

lemmas material_eval =
  signed_material_def canon_eval Number_of_nat_def toLowerCase_def lower_char_def
  char_of_def bit_Suc_0_iff

lemma constructor_example:
  "constructor (Some ''k3y'') (Some ''s3cr3t'') no_options = Inr example_client"
  by (simp add: constructor_def not_given_def no_options_def example_client_def or_else_def)

section \<open>The canonical string\<close>

subsection \<open>Objects with distinct keys\<close>

lemma skipped_iff_omitted: "skipped v = omitted v"
  by (cases v) (simp_all add: skipped_def)

lemma foldl_set_property_fresh:
  "distinct (map fst (acc @ es)) \<Longrightarrow> foldl set_property acc es = acc @ es"
proof (induction es arbitrary: acc)
  case Nil
  then show ?case by simp
next
  case (Cons p es)
  have fresh: "fst p \<notin> fst ` set acc" using Cons.prems by auto
  have "distinct (map fst ((acc @ [p]) @ es))" using Cons.prems by simp
  then have "foldl set_property (acc @ [p]) es = (acc @ [p]) @ es" by (rule Cons.IH)
  moreover have "set_property acc p = acc @ [p]" using fresh by (simp add: set_property_def)
  ultimately show ?case by simp
qed

lemma Object_fromEntries_distinct:
  "distinct (map fst es) \<Longrightarrow> Object_fromEntries es = es"
  using foldl_set_property_fresh [of "[]" es] by (simp add: Object_fromEntries_def)

lemma own_entries_filter: "own_entries (filter P xs) = filter P (own_entries xs)"
proof -
  have "filter P (sort_key (\<lambda>p. index_value (fst p)) (filter (\<lambda>p. is_array_index (fst p)) xs))
      = sort_key (\<lambda>p. index_value (fst p)) (filter (\<lambda>p. is_array_index (fst p)) (filter P xs))"
    by (simp add: filter_sort conj_commute)
  then show ?thesis by (simp add: own_entries_def conj_commute)
qed

lemma set_own_entries: "set (own_entries xs) = set xs"
  by (auto simp: own_entries_def)

lemma distinct_own_entries: "distinct xs \<Longrightarrow> distinct (own_entries xs)"
  by (auto simp: own_entries_def)

lemma distinct_keys_own_entries:
  "distinct (map fst xs) \<Longrightarrow> distinct (map fst (own_entries xs))"
  by (simp add: distinct_map set_own_entries distinct_own_entries)

lemma distinct_keys_sort_entries:
  "distinct (map fst xs) \<Longrightarrow> distinct (map fst (sort_entries xs))"
  by (simp add: distinct_map sort_entries_def)

lemma distinct_keys_filter:
  "distinct (map fst xs) \<Longrightarrow> distinct (map fst (filter P xs))"
  by (simp add: distinct_map_filter)

lemma sortedData_distinct:
  "distinct (map fst data) \<Longrightarrow> sortedData data = sort_entries (own_entries data)"
  by (simp add: sortedData_def Object_entries_def Object_fromEntries_distinct
      distinct_keys_sort_entries distinct_keys_own_entries)

lemma sort_entries_filter: "sort_entries (filter P xs) = filter P (sort_entries xs)"
  by (simp add: sort_entries_def filter_sort)

lemma foldl_append_value_skip:
  "foldl append_value acc (map snd (filter (\<lambda>p. \<not> skipped (snd p)) es))
     = foldl append_value acc (map snd es)"
  by (induction es arbitrary: acc) (simp_all add: append_value_def)

subsection \<open>Sorting by the entry text and sorting by the key\<close>

lemma insort_key_same_order:
  "\<forall>y\<in>set ys. (f x \<le> f y) = (g x \<le> g y) \<Longrightarrow> insort_key f x ys = insort_key g x ys"
  by (induction ys) simp_all

lemma sort_key_same_order:
  "\<forall>x\<in>set xs. \<forall>y\<in>set xs. (f x \<le> f y) = (g x \<le> g y) \<Longrightarrow> sort_key f xs = sort_key g xs"
proof (induction xs)
  case Nil
  then show ?case by simp
next
  case (Cons x xs)
  have ih: "sort_key f xs = sort_key g xs" using Cons by simp
  have "\<forall>y\<in>set (sort_key g xs). (f x \<le> f y) = (g x \<le> g y)" using Cons.prems by simp
  then have "insort_key f x (sort_key g xs) = insort_key g x (sort_key g xs)"
    by (rule insort_key_same_order)
  then show ?case by (simp add: ih)
qed

lemma entry_text_eq:
  "entry_text (k, v) = k @ '','' @ (if v = Undefined \<or> v = Null then [] else ToString v)"
  by (simp add: entry_text_def join_def)

text \<open>
  Between two different keys made of characters above the comma, the comma that follows
  the key never decides the comparison against the other key.
\<close>

lemma key_then_comma_order:
  "list_all (\<lambda>c. CHR '','' < c) k1 \<Longrightarrow> list_all (\<lambda>c. CHR '','' < c) k2 \<Longrightarrow> k1 \<noteq> k2
   \<Longrightarrow> (k1 @ CHR '','' # t1 \<le> k2 @ CHR '','' # t2) = (k1 \<le> k2)"
proof (induction k1 arbitrary: k2)
  case Nil
  then show ?case by (cases k2) auto
next
  case (Cons c r)
  show ?case
  proof (cases k2)
    case Nil
    then show ?thesis using Cons.prems by auto
  next
    case (Cons c2 r2)
    show ?thesis
    proof (cases "c = c2")
      case True
      then have "r \<noteq> r2" using Cons.prems \<open>k2 = c2 # r2\<close> by simp
      then have "(r @ CHR '','' # t1 \<le> r2 @ CHR '','' # t2) = (r \<le> r2)"
        using Cons.IH [of r2] Cons.prems \<open>k2 = c2 # r2\<close> by simp
      then show ?thesis using True \<open>k2 = c2 # r2\<close> by simp
    next
      case False
      then show ?thesis using \<open>k2 = c2 # r2\<close> by simp
    qed
  qed
qed

lemma sort_entries_plain:
  assumes d: "distinct (map fst es)" and p: "list_all (\<lambda>e. plain_key (fst e)) es"
  shows "sort_entries es = sort_key fst es"
  unfolding sort_entries_def
proof (rule sort_key_same_order, intro ballI)
  fix x y assume x: "x \<in> set es" and y: "y \<in> set es"
  have px: "list_all (\<lambda>c. CHR '','' < c) (fst x)" and py: "list_all (\<lambda>c. CHR '','' < c) (fst y)"
    using p x y by (auto simp: list_all_iff plain_key_def)
  show "(entry_text x \<le> entry_text y) = (fst x \<le> fst y)"
  proof (cases "fst x = fst y")
    case True
    then have "x = y" using d x y by (meson distinct_map inj_onD)
    then show ?thesis by simp
  next
    case False
    from key_then_comma_order [OF px py False]
    show ?thesis by (cases x; cases y) (simp add: entry_text_eq)
  qed
qed

lemma own_entries_plain:
  "list_all (\<lambda>e. plain_key (fst e)) es \<Longrightarrow> own_entries es = es"
proof -
  assume p: "list_all (\<lambda>e. plain_key (fst e)) es"
  then have "\<forall>e\<in>set es. \<not> is_array_index (fst e)" by (simp add: list_all_iff plain_key_def)
  then have "filter (\<lambda>p. is_array_index (fst p)) es = []"
    and "filter (\<lambda>p. \<not> is_array_index (fst p)) es = es"
    by (simp_all add: filter_empty_conv filter_id_conv)
  then show ?thesis by (simp add: own_entries_def)
qed

subsection \<open>The order of the values\<close>

text \<open>
  C4, as amended. For every parameter object with distinct keys, all of them plain (no
  character at or below the comma, not an array index), the values are taken in
  ascending code unit order of their keys: the values of \<open>sortedData\<close> are those of the
  entries sorted by key, and the canonical string is what the loop appends over them.
  Without the restriction the claim fails: the entries are sorted by the text
  \<^verbatim>\<open>key,value\<close> and array indices are enumerated first, in numeric order.
\<close>

theorem values_in_key_order_for_plain_keys:
  assumes "distinct (map fst data)" and "list_all (\<lambda>e. plain_key (fst e)) data"
  shows "Object_values (sortedData data) = map snd (sort_key fst data)
         \<and> stringData data = foldl append_value [] (map snd (sort_key fst data))
         \<and> sorted (map fst (sort_key fst data))"
proof -
  have s: "sortedData data = sort_key fst data"
    using assms by (simp add: sortedData_distinct own_entries_plain sort_entries_plain)
  have "list_all (\<lambda>e. plain_key (fst e)) (sort_key fst data)"
    using assms(2) by (simp add: list_all_iff)
  then have v: "Object_values (sortedData data) = map snd (sort_key fst data)"
    by (simp add: Object_values_def s own_entries_plain)
  show ?thesis by (simp add: v stringData_def)
qed

text \<open>
  The parameters of the second step of \<^verbatim>\<open>CreateOffer\<close>, without the array: the values
  come out in the order \<^verbatim>\<open>app_id\<close>, \<^verbatim>\<open>trade_id\<close>, \<^verbatim>\<open>trade_url\<close>.
\<close>

theorem values_in_key_order_witness:
  "distinct (map fst [(''trade_url'', Str ''u''), (''app_id'', Num (Finite False 73 3)),
                      (''trade_id'', Str ''T'')])
   \<and> list_all (\<lambda>e. plain_key (fst e))
        [(''trade_url'', Str ''u''), (''app_id'', Num (Finite False 73 3)), (''trade_id'', Str ''T'')]
   \<and> stringData [(''trade_url'', Str ''u''), (''app_id'', Num (Finite False 73 3)),
                  (''trade_id'', Str ''T'')] = ''730Tu''"
  using values_in_key_order_for_plain_keys
    [of "[(''trade_url'', Str ''u''), (''app_id'', Num (Finite False 73 3)), (''trade_id'', Str ''T'')]"]
  by (simp add: plain_key_def is_array_index_def is_digit_def append_value_def skipped_def
      positive_text_def digits.simps digit_char_def)

text \<open>
  C4 as stated fails. In \<^verbatim>\<open>{"a": "1", "a!": "2"}\<close> the key \<^verbatim>\<open>a\<close> comes first, yet the
  value of \<^verbatim>\<open>a!\<close> is appended first, since \<^verbatim>\<open>a!,2\<close> sorts before \<^verbatim>\<open>a,1\<close>. In
  \<^verbatim>\<open>{"9": "1", "10": "2"}\<close> the key \<^verbatim>\<open>10\<close> comes first, yet the value of \<^verbatim>\<open>9\<close> is
  appended first, since array indices are enumerated numerically.
\<close>

theorem values_not_in_key_order:
  "stringData [(''a'', Str ''1''), (''a!'', Str ''2'')] = ''21''
   \<and> foldl append_value [] (map snd (sort_key fst [(''a'', Str ''1''), (''a!'', Str ''2'')])) = ''12''
   \<and> stringData [(''9'', Str ''1''), (''10'', Str ''2'')] = ''12''
   \<and> foldl append_value [] (map snd (sort_key fst [(''9'', Str ''1''), (''10'', Str ''2'')])) = ''21''"
  by (simp add: canon_eval)

subsection \<open>The omission rule\<close>

lemma stringData_without_skipped:
  assumes "distinct (map fst data)"
  shows "stringData (filter (\<lambda>p. \<not> skipped (snd p)) data) = stringData data"
proof -
  let ?keep = "\<lambda>p. \<not> skipped (snd p)"
  have d: "distinct (map fst (filter ?keep data))" using assms by (rule distinct_keys_filter)
  have "Object_values (sortedData (filter ?keep data))
      = map snd (own_entries (sort_entries (own_entries (filter ?keep data))))"
    by (simp add: Object_values_def sortedData_distinct [OF d])
  also have "\<dots> = map snd (filter ?keep (own_entries (sort_entries (own_entries data))))"
    by (simp only: own_entries_filter sort_entries_filter)
  finally have vals: "Object_values (sortedData (filter ?keep data))
      = map snd (filter ?keep (Object_entries (sortedData data)))"
    by (simp add: sortedData_distinct [OF assms] Object_entries_def)
  show ?thesis
    unfolding stringData_def vals
    by (simp add: foldl_append_value_skip Object_values_def Object_entries_def)
qed

text \<open>
  C5. For every parameter object (an object has distinct keys), the entries whose value
  is \<^verbatim>\<open>null\<close>, \<^verbatim>\<open>undefined\<close>, an array or an object contribute nothing: the canonical
  string is that of the object with those entries removed. Hence two objects that differ
  only by such entries have the same canonical string.
\<close>

theorem omitted_values_contribute_nothing:
  assumes "distinct (map fst data)"
  shows "stringData (filter (\<lambda>p. \<not> omitted (snd p)) data) = stringData data"
proof -
  have same: "(\<lambda>p. \<not> omitted (snd p)) = (\<lambda>p. \<not> skipped (snd p))"
    by (simp add: skipped_iff_omitted)
  show ?thesis unfolding same by (rule stringData_without_skipped [OF assms])
qed

text \<open>\<^verbatim>\<open>{a: 1, b: null, c: [1,2]}\<close> has the canonical string of \<^verbatim>\<open>{a: 1}\<close>.\<close>

theorem omitted_values_witness:
  "distinct (map fst [(''a'', Num (Finite False 1 1)), (''b'', Null),
                      (''c'', Arr [Num (Finite False 1 1), Num (Finite False 2 1)])])
   \<and> stringData [(''a'', Num (Finite False 1 1)), (''b'', Null),
                  (''c'', Arr [Num (Finite False 1 1), Num (Finite False 2 1)])]
       = stringData [(''a'', Num (Finite False 1 1))]"
  using omitted_values_contribute_nothing
    [of "[(''a'', Num (Finite False 1 1)), (''b'', Null),
          (''c'', Arr [Num (Finite False 1 1), Num (Finite False 2 1)])]"]
  by simp

lemma same_survivors_same_string:
  assumes "distinct (map fst d1)" and "distinct (map fst d2)"
    and "filter (\<lambda>p. \<not> omitted (snd p)) d1 = filter (\<lambda>p. \<not> omitted (snd p)) d2"
  shows "stringData d1 = stringData d2"
proof -
  have "filter (\<lambda>p. \<not> skipped (snd p)) d1 = filter (\<lambda>p. \<not> skipped (snd p)) d2"
    using assms(3) by (simp add: skipped_iff_omitted)
  then show ?thesis
    using stringData_without_skipped [OF assms(1)] stringData_without_skipped [OF assms(2)]
    by simp
qed

section \<open>The digest of the example, step by step\<close>

text \<open>
  The HMAC of \<^verbatim>\<open>d10.51700000000000\<close> under the key \<^verbatim>\<open>s3cr3t\<close> takes four
  compressions: two blocks for the inner hash, two for the outer one. Each lemma below
  evaluates one stage on the values of the stage before.
\<close>

lemma replicate_numeral: "replicate (numeral k) x = x # replicate (pred_numeral k) x"
  by (simp only: numeral_eq_Suc [of k] replicate.simps)

lemma be_bytes_numeral: "be_bytes (numeral k) v = be_bytes (pred_numeral k) (v div 256) @ [of_nat v]"
  by (simp only: numeral_eq_Suc [of k] be_bytes.simps)

lemma chunks_numeral:
  "chunks (numeral k) len xs = take len xs # chunks (pred_numeral k) len (drop len xs)"
  by (simp only: numeral_eq_Suc [of k] chunks.simps)

lemma schedule_from_numeral:
  "schedule_from (numeral k) win =
     hd win # schedule_from (pred_numeral k)
       (tl win @ [norm64 (sigma1 (win ! 14) + win ! 9 + sigma0 (win ! 1) + win ! 0)])"
  by (simp only: numeral_eq_Suc [of k] schedule_from.simps norm64_def)

lemma of_nat_mod_64: "(word_of_nat (m mod 18446744073709551616) :: word64) = word_of_nat m"
  by (simp add: word_of_nat_eq_iff take_bit_eq_mod)

lemma norm64_numeral:
  "norm64 (numeral n) = word_of_nat (numeral n mod 18446744073709551616)"
  unfolding norm64_def of_nat_mod_64 by simp

lemma norm64_small: "norm64 0 = 0" "norm64 1 = 1"
  by (simp_all add: norm64_def)

lemma round512_norm:
  "round512 [a, b, c, d, e, f, g, h] (k, w) =
     (let t1 = norm64 (h + Sigma1 e + Ch e f g + k + w);
          t2 = norm64 (Sigma0 a + Maj a b c)
      in [norm64 (t1 + t2), a, b, c, norm64 (d + t1), e, f, g])"
  by (simp add: norm64_def)

lemma example_schedule_1:
  "schedule
     [69, 5, 85, 68, 5, 66, 54, 54, 54, 54, 54, 54, 54, 54, 54, 54, 54, 54, 54, 54, 54, 54, 54, 54,
     54, 54, 54, 54, 54, 54, 54, 54, 54, 54, 54, 54, 54, 54, 54, 54, 54, 54, 54, 54, 54, 54,
     54, 54, 54, 54, 54, 54, 54, 54, 54, 54, 54, 54, 54, 54, 54, 54, 54, 54, 54, 54, 54, 54,
     54, 54, 54, 54, 54, 54, 54, 54, 54, 54, 54, 54, 54, 54, 54, 54, 54, 54, 54, 54, 54, 54,
     54, 54, 54, 54, 54, 54, 54, 54, 54, 54, 54, 54, 54, 54, 54, 54, 54, 54, 54, 54, 54, 54,
     54, 54, 54, 54, 54, 54, 54, 54, 54, 54, 54, 54, 54, 54, 54, 54] =
     [4973475114134943286, 3906369333256140342, 3906369333256140342, 3906369333256140342,
     3906369333256140342, 3906369333256140342, 3906369333256140342, 3906369333256140342,
     3906369333256140342, 3906369333256140342, 3906369333256140342, 3906369333256140342,
     3906369333256140342, 3906369333256140342, 3906369333256140342, 3906369333256140342,
     2318364707937410396, 1251258927058607452, 14120619207744018374, 13452757183194325483,
     18442467413575015002, 9585798704792756883, 4098448979689807346, 16870092473763490743,
     6426070672310668092, 10779461051153788545, 12075865704010539452, 14892608185433696132,
     14598563615103140162, 16067543470069680812, 7880222402373771748, 130596948286907347,
     8199565720839938396, 16840477297717530030, 10228783965558103971, 16283597499756550718,
     17678085629264049279, 11508051636573210280, 4455688344922228405, 15813432470104301853,
     8927714251653192522, 17769685408492938764, 2972567504552982821, 8495308987436870767,
     16280766031236501869, 14581648483194016018, 14619738130956724439, 11967440610736716808,
     9615822417736546409, 13629116975524644488, 1316092439184978019, 14098678829882399969,
     7675620554746157935, 4331125995790116643, 11867046129476645894, 17092226025494521507,
     12750959778094473967, 1853476620424978260, 16974088949976987886, 14668129363452249475,
     10714058879588620166, 8799655289476035635, 8130553561091666975, 13320319960621669147,
     17324474760787601979, 11683995812652388916, 4991690499342672868, 14210786306523191013,
     17385986734192024327, 12908803296614542013, 10725540189296517713, 13474047242022658226,
     4967624168606834065, 1948505597616530203, 14810060068689326964, 5124460139074930450,
     14969529214112095214, 4037195463383230207, 17881678727716769751, 15274695232083978537]"
  by (simp add: schedule_def schedule_from_numeral chunks_numeral be_word_def rotr_def
      sigma0_def sigma1_def norm64_numeral norm64_small)

lemma example_rounds_1:
  "foldl round512 H512 (zip K512
     [4973475114134943286, 3906369333256140342, 3906369333256140342, 3906369333256140342,
     3906369333256140342, 3906369333256140342, 3906369333256140342, 3906369333256140342,
     3906369333256140342, 3906369333256140342, 3906369333256140342, 3906369333256140342,
     3906369333256140342, 3906369333256140342, 3906369333256140342, 3906369333256140342,
     2318364707937410396, 1251258927058607452, 14120619207744018374, 13452757183194325483,
     18442467413575015002, 9585798704792756883, 4098448979689807346, 16870092473763490743,
     6426070672310668092, 10779461051153788545, 12075865704010539452, 14892608185433696132,
     14598563615103140162, 16067543470069680812, 7880222402373771748, 130596948286907347,
     8199565720839938396, 16840477297717530030, 10228783965558103971, 16283597499756550718,
     17678085629264049279, 11508051636573210280, 4455688344922228405, 15813432470104301853,
     8927714251653192522, 17769685408492938764, 2972567504552982821, 8495308987436870767,
     16280766031236501869, 14581648483194016018, 14619738130956724439, 11967440610736716808,
     9615822417736546409, 13629116975524644488, 1316092439184978019, 14098678829882399969,
     7675620554746157935, 4331125995790116643, 11867046129476645894, 17092226025494521507,
     12750959778094473967, 1853476620424978260, 16974088949976987886, 14668129363452249475,
     10714058879588620166, 8799655289476035635, 8130553561091666975, 13320319960621669147,
     17324474760787601979, 11683995812652388916, 4991690499342672868, 14210786306523191013,
     17385986734192024327, 12908803296614542013, 10725540189296517713, 13474047242022658226,
     4967624168606834065, 1948505597616530203, 14810060068689326964, 5124460139074930450,
     14969529214112095214, 4037195463383230207, 17881678727716769751, 15274695232083978537]) =
     [15425246273302444682, 1780848329741994449, 1350368620633203312, 2949150270250646484,
     6647265147387339513, 16755771965692656769, 6449404907525533592, 16524230916313011249]"
  by (simp add: K512_def H512_def rotr_def Ch_def Maj_def Sigma0_def Sigma1_def round512_norm
      norm64_numeral norm64_small del: round512.simps)

lemma example_compress_1:
  "compress H512
     [69, 5, 85, 68, 5, 66, 54, 54, 54, 54, 54, 54, 54, 54, 54, 54, 54, 54, 54, 54, 54, 54, 54, 54,
     54, 54, 54, 54, 54, 54, 54, 54, 54, 54, 54, 54, 54, 54, 54, 54, 54, 54, 54, 54, 54, 54,
     54, 54, 54, 54, 54, 54, 54, 54, 54, 54, 54, 54, 54, 54, 54, 54, 54, 54, 54, 54, 54, 54,
     54, 54, 54, 54, 54, 54, 54, 54, 54, 54, 54, 54, 54, 54, 54, 54, 54, 54, 54, 54, 54, 54,
     54, 54, 54, 54, 54, 54, 54, 54, 54, 54, 54, 54, 54, 54, 54, 54, 54, 54, 54, 54, 54, 54,
     54, 54, 54, 54, 54, 54, 54, 54, 54, 54, 54, 54, 54, 54, 54, 54] =
     [4619393776548905874, 15284802225917473036, 5705054185570048667, 14861159440721556165,
     12487961622465340874, 9479477293975709856, 8720302877328420099, 4698003802422998442]"
  unfolding compress_def example_schedule_1 example_rounds_1
  by (simp add: H512_def)

lemma example_schedule_2:
  "schedule
     [100, 49, 48, 46, 53, 49, 55, 48, 48, 48, 48, 48, 48, 48, 48, 48, 48, 48, 128, 0, 0, 0, 0, 0,
     0, 0, 0, 0, 0, 0, 0, 0, 0, 0, 0, 0, 0, 0, 0, 0, 0, 0, 0, 0, 0, 0, 0, 0, 0, 0, 0, 0, 0, 0,
     0, 0, 0, 0, 0, 0, 0, 0, 0, 0, 0, 0, 0, 0, 0, 0, 0, 0, 0, 0, 0, 0, 0, 0, 0, 0, 0, 0, 0, 0,
     0, 0, 0, 0, 0, 0, 0, 0, 0, 0, 0, 0, 0, 0, 0, 0, 0, 0, 0, 0, 0, 0, 0, 0, 0, 0, 0, 0, 0, 0,
     0, 0, 0, 0, 0, 0, 0, 0, 0, 0, 0, 0, 4, 144] =
     [7219604652670662448, 3472328296227680304, 3472416050191007744, 0, 0, 0, 0, 0, 0, 0, 0, 0, 0,
     0, 0, 1168, 10122254087798488952, 5263091339514369218, 9098880782477349270,
     4894970404888928583, 16854273001117051987, 10544119676822231697, 8151193556927423711,
     6932163356009758360, 7400418377469947437, 11390136784069592925, 4445710925924150751,
     6630217993903253910, 8877676417824414984, 5005683789933694387, 16431237301274910267,
     4141457547118457899, 7013889036680226148, 15999174610567709276, 6347650554002623560,
     11627094736600417809, 3552583659648221236, 1014076990494903511, 17148338766145685376,
     13957735993426936640, 15349879101546434252, 17778422913943209941, 185770690048865127,
     8742269352370444133, 15975480177915909538, 11908207674210615198, 5914228794833139491,
     3025636247340589867, 7612910291889486188, 10424517750914588111, 7309716911508322120,
     13882149777402001560, 838125269385879117, 6997976627459339392, 15600310035540865473,
     4850997878506457272, 15247747823751141759, 18232026251558093364, 13336423840812442752,
     7948064957603561786, 8861057660178951315, 8410970703005691208, 3506698374605083609,
     10932402490111229524, 14230196700418814079, 16429387859907160916, 13516827152961552122,
     1975425324159794821, 18024386991195409324, 4831604107371743828, 3831154920752822684,
     8697775883587239608, 8201683261723127496, 17972757014353318391, 3216283643498875379,
     8223383572892859784, 15951728990499535236, 5867500760343512368, 17184767024334846585,
     12757620883914746992]"
  by (simp add: schedule_def schedule_from_numeral chunks_numeral be_word_def rotr_def
      sigma0_def sigma1_def norm64_numeral norm64_small)

lemma example_rounds_2:
  "foldl round512 [4619393776548905874, 15284802225917473036, 5705054185570048667, 14861159440721556165,
     12487961622465340874, 9479477293975709856, 8720302877328420099, 4698003802422998442] (zip K512
     [7219604652670662448, 3472328296227680304, 3472416050191007744, 0, 0, 0, 0, 0, 0, 0, 0, 0, 0,
     0, 0, 1168, 10122254087798488952, 5263091339514369218, 9098880782477349270,
     4894970404888928583, 16854273001117051987, 10544119676822231697, 8151193556927423711,
     6932163356009758360, 7400418377469947437, 11390136784069592925, 4445710925924150751,
     6630217993903253910, 8877676417824414984, 5005683789933694387, 16431237301274910267,
     4141457547118457899, 7013889036680226148, 15999174610567709276, 6347650554002623560,
     11627094736600417809, 3552583659648221236, 1014076990494903511, 17148338766145685376,
     13957735993426936640, 15349879101546434252, 17778422913943209941, 185770690048865127,
     8742269352370444133, 15975480177915909538, 11908207674210615198, 5914228794833139491,
     3025636247340589867, 7612910291889486188, 10424517750914588111, 7309716911508322120,
     13882149777402001560, 838125269385879117, 6997976627459339392, 15600310035540865473,
     4850997878506457272, 15247747823751141759, 18232026251558093364, 13336423840812442752,
     7948064957603561786, 8861057660178951315, 8410970703005691208, 3506698374605083609,
     10932402490111229524, 14230196700418814079, 16429387859907160916, 13516827152961552122,
     1975425324159794821, 18024386991195409324, 4831604107371743828, 3831154920752822684,
     8697775883587239608, 8201683261723127496, 17972757014353318391, 3216283643498875379,
     8223383572892859784, 15951728990499535236, 5867500760343512368, 17184767024334846585,
     12757620883914746992]) =
     [14864938515697650327, 6666501288571965408, 3077065075612267414, 6278123799129639701,
     5651494376974350916, 5746030619382376218, 9463206088133030524, 18429778498754832170]"
  by (simp add: K512_def rotr_def Ch_def Maj_def Sigma0_def Sigma1_def round512_norm
      norm64_numeral norm64_small del: round512.simps)

lemma example_compress_2:
  "compress [4619393776548905874, 15284802225917473036, 5705054185570048667, 14861159440721556165,
     12487961622465340874, 9479477293975709856, 8720302877328420099, 4698003802422998442]
     [100, 49, 48, 46, 53, 49, 55, 48, 48, 48, 48, 48, 48, 48, 48, 48, 48, 48, 128, 0, 0, 0, 0, 0,
     0, 0, 0, 0, 0, 0, 0, 0, 0, 0, 0, 0, 0, 0, 0, 0, 0, 0, 0, 0, 0, 0, 0, 0, 0, 0, 0, 0, 0, 0,
     0, 0, 0, 0, 0, 0, 0, 0, 0, 0, 0, 0, 0, 0, 0, 0, 0, 0, 0, 0, 0, 0, 0, 0, 0, 0, 0, 0, 0, 0,
     0, 0, 0, 0, 0, 0, 0, 0, 0, 0, 0, 0, 0, 0, 0, 0, 0, 0, 0, 0, 0, 0, 0, 0, 0, 0, 0, 0, 0, 0,
     0, 0, 0, 0, 0, 0, 0, 0, 0, 0, 0, 0, 4, 144] =
     [1037588218537004585, 3504559440779886828, 8782119261182316081, 2692539166141644250,
     18139455999439691790, 15225507913358086074, 18183508965461450623, 4681038227468278996]"
  unfolding compress_def example_schedule_2 example_rounds_2
  by (simp add: H512_def)

lemma example_schedule_3:
  "schedule
     [47, 111, 63, 46, 111, 40, 92, 92, 92, 92, 92, 92, 92, 92, 92, 92, 92, 92, 92, 92, 92, 92, 92,
     92, 92, 92, 92, 92, 92, 92, 92, 92, 92, 92, 92, 92, 92, 92, 92, 92, 92, 92, 92, 92, 92,
     92, 92, 92, 92, 92, 92, 92, 92, 92, 92, 92, 92, 92, 92, 92, 92, 92, 92, 92, 92, 92, 92,
     92, 92, 92, 92, 92, 92, 92, 92, 92, 92, 92, 92, 92, 92, 92, 92, 92, 92, 92, 92, 92, 92,
     92, 92, 92, 92, 92, 92, 92, 92, 92, 92, 92, 92, 92, 92, 92, 92, 92, 92, 92, 92, 92, 92,
     92, 92, 92, 92, 92, 92, 92, 92, 92, 92, 92, 92, 92, 92, 92, 92, 92] =
     [3418020110863457372, 6655295901103053916, 6655295901103053916, 6655295901103053916,
     6655295901103053916, 6655295901103053916, 6655295901103053916, 6655295901103053916,
     6655295901103053916, 6655295901103053916, 6655295901103053916, 6655295901103053916,
     6655295901103053916, 6655295901103053916, 6655295901103053916, 6655295901103053916,
     7398990247358864282, 10636266037598460826, 17518309602826681075, 1829979072273663307,
     4612189475851729743, 10334450643308845927, 3020547045099598604, 5755954274518833270,
     2621649934064771773, 9187330710742068074, 4059557522334660409, 16616037382044411513,
     15224539453122852258, 17629268317899077743, 7981079139234402533, 5520766814839465293,
     2764121718059707784, 11602519723430452736, 6419900507434480577, 420573124961958723,
     9055149540317891958, 615816820313829111, 14173969099754791228, 7438857634951714474,
     16517523406325262122, 4657982484405412006, 12120944444949181375, 7442719189144115885,
     14234000358694966261, 7256577608137060010, 1638217667792977552, 17221900453263284692,
     4236155636173247896, 9162313112344215087, 6223483227834129941, 5959739017961440938,
     10819113829866942318, 186391631789892992, 9478055676110698940, 3153660862718743398,
     5509069383341266631, 13747726150756293942, 7007819652182231202, 8289249273416077837,
     12947454196594453014, 3993092825016694952, 6929374193085692127, 376755438338893048,
     13939312199587057647, 1485482609393793400, 4503594338252727285, 9701685952578517822,
     15444158621238274538, 5145462925844308181, 9305291638780167681, 390356253908311618,
     14237602796131370051, 9788808916998260571, 5991171743222129007, 16398870663861418918,
     12919060678361390436, 3502728775707214279, 3121962657205564016, 9648511524204241038]"
  by (simp add: schedule_def schedule_from_numeral chunks_numeral be_word_def rotr_def
      sigma0_def sigma1_def norm64_numeral norm64_small)

lemma example_rounds_3:
  "foldl round512 H512 (zip K512
     [3418020110863457372, 6655295901103053916, 6655295901103053916, 6655295901103053916,
     6655295901103053916, 6655295901103053916, 6655295901103053916, 6655295901103053916,
     6655295901103053916, 6655295901103053916, 6655295901103053916, 6655295901103053916,
     6655295901103053916, 6655295901103053916, 6655295901103053916, 6655295901103053916,
     7398990247358864282, 10636266037598460826, 17518309602826681075, 1829979072273663307,
     4612189475851729743, 10334450643308845927, 3020547045099598604, 5755954274518833270,
     2621649934064771773, 9187330710742068074, 4059557522334660409, 16616037382044411513,
     15224539453122852258, 17629268317899077743, 7981079139234402533, 5520766814839465293,
     2764121718059707784, 11602519723430452736, 6419900507434480577, 420573124961958723,
     9055149540317891958, 615816820313829111, 14173969099754791228, 7438857634951714474,
     16517523406325262122, 4657982484405412006, 12120944444949181375, 7442719189144115885,
     14234000358694966261, 7256577608137060010, 1638217667792977552, 17221900453263284692,
     4236155636173247896, 9162313112344215087, 6223483227834129941, 5959739017961440938,
     10819113829866942318, 186391631789892992, 9478055676110698940, 3153660862718743398,
     5509069383341266631, 13747726150756293942, 7007819652182231202, 8289249273416077837,
     12947454196594453014, 3993092825016694952, 6929374193085692127, 376755438338893048,
     13939312199587057647, 1485482609393793400, 4503594338252727285, 9701685952578517822,
     15444158621238274538, 5145462925844308181, 9305291638780167681, 390356253908311618,
     14237602796131370051, 9788808916998260571, 5991171743222129007, 16398870663861418918,
     12919060678361390436, 3502728775707214279, 3121962657205564016, 9648511524204241038]) =
     [860561691897007533, 2522985300458262571, 12048297928036274844, 7005415551871914408,
     10901416794641548360, 989206050746890889, 2132559575907856075, 13053388819203342386]"
  by (simp add: K512_def H512_def rotr_def Ch_def Maj_def Sigma0_def Sigma1_def round512_norm
      norm64_numeral norm64_small del: round512.simps)

lemma example_compress_3:
  "compress H512
     [47, 111, 63, 46, 111, 40, 92, 92, 92, 92, 92, 92, 92, 92, 92, 92, 92, 92, 92, 92, 92, 92, 92,
     92, 92, 92, 92, 92, 92, 92, 92, 92, 92, 92, 92, 92, 92, 92, 92, 92, 92, 92, 92, 92, 92,
     92, 92, 92, 92, 92, 92, 92, 92, 92, 92, 92, 92, 92, 92, 92, 92, 92, 92, 92, 92, 92, 92,
     92, 92, 92, 92, 92, 92, 92, 92, 92, 92, 92, 92, 92, 92, 92, 92, 92, 92, 92, 92, 92, 92,
     92, 92, 92, 92, 92, 92, 92, 92, 92, 92, 92, 92, 92, 92, 92, 92, 92, 92, 92, 92, 92, 92,
     92, 92, 92, 92, 92, 92, 92, 92, 92, 92, 92, 92, 92, 92, 92, 92, 92] =
     [8501453268853020341, 16026939196633741158, 16402983492973120199, 470680648633272473,
     16742113269719549721, 12159655452739495592, 4403457545710742582, 1227161705313329579]"
  unfolding compress_def example_schedule_3 example_rounds_3
  by (simp add: H512_def)

lemma example_schedule_4:
  "schedule
     [14, 102, 64, 252, 197, 7, 78, 41, 48, 162, 178, 62, 81, 237, 64, 236, 121, 224, 90, 240, 57,
     227, 78, 49, 37, 93, 210, 27, 29, 178, 253, 218, 251, 188, 75, 31, 225, 110, 96, 14, 211,
     75, 222, 199, 108, 155, 143, 186, 252, 88, 205, 16, 80, 117, 223, 127, 64, 246, 99, 119,
     120, 69, 92, 212, 128, 0, 0, 0, 0, 0, 0, 0, 0, 0, 0, 0, 0, 0, 0, 0, 0, 0, 0, 0, 0, 0, 0,
     0, 0, 0, 0, 0, 0, 0, 0, 0, 0, 0, 0, 0, 0, 0, 0, 0, 0, 0, 0, 0, 0, 0, 0, 0, 0, 0, 0, 0, 0,
     0, 0, 0, 0, 0, 0, 0, 0, 0, 6, 0] =
     [1037588218537004585, 3504559440779886828, 8782119261182316081, 2692539166141644250,
     18139455999439691790, 15225507913358086074, 18183508965461450623, 4681038227468278996,
     9223372036854775808, 0, 0, 0, 0, 0, 0, 1536, 173106862358259168, 13753078285219722190,
     12836331986679152018, 9410287897523721968, 1364911950745735511, 5154499723241263286,
     13185131772517893967, 2605538996558060504, 6684087994614020898, 4382645747311295864,
     1916990750305078563, 7259567562012157574, 10710303609139118926, 12661414455295824779,
     1393643113510637813, 15237122416258291503, 6399836721312605615, 1026828022083695268,
     15780487872001987329, 9941671766918998450, 5092408532847591087, 14498458225929363134,
     1187253611304881007, 5968281047864890890, 7211039996070981522, 1390346846866756478,
     8536808322293417136, 10508766571850398102, 14234945473524244842, 4652026730687652171,
     673269850392642762, 9537166469651395537, 1248185919878133193, 6955648468909173362,
     4082538046580392986, 11320333434923700528, 5196508422007262277, 7653466458071001573,
     2934380318346758296, 7056101655463161606, 1775623241000994827, 8835922724872531263,
     10317101173912571842, 3760137488429096646, 3887378026381602374, 1906809764667242959,
     6949237089307947800, 2557159647892723726, 4268337636465557081, 6214408827886748663,
     6541836685656829497, 13671151246688270078, 10817435948749790064, 9273140566157532435,
     9535911023817931433, 15621438634294759654, 15679627748629017748, 1773436309456983852,
     15740007125350127000, 4420601190234577385, 4278579435148231049, 10981678592433577774,
     14767090636488885523, 8978986655873803016]"
  by (simp add: schedule_def schedule_from_numeral chunks_numeral be_word_def rotr_def
      sigma0_def sigma1_def norm64_numeral norm64_small)

lemma example_rounds_4:
  "foldl round512 [8501453268853020341, 16026939196633741158, 16402983492973120199, 470680648633272473,
     16742113269719549721, 12159655452739495592, 4403457545710742582, 1227161705313329579] (zip K512
     [1037588218537004585, 3504559440779886828, 8782119261182316081, 2692539166141644250,
     18139455999439691790, 15225507913358086074, 18183508965461450623, 4681038227468278996,
     9223372036854775808, 0, 0, 0, 0, 0, 0, 1536, 173106862358259168, 13753078285219722190,
     12836331986679152018, 9410287897523721968, 1364911950745735511, 5154499723241263286,
     13185131772517893967, 2605538996558060504, 6684087994614020898, 4382645747311295864,
     1916990750305078563, 7259567562012157574, 10710303609139118926, 12661414455295824779,
     1393643113510637813, 15237122416258291503, 6399836721312605615, 1026828022083695268,
     15780487872001987329, 9941671766918998450, 5092408532847591087, 14498458225929363134,
     1187253611304881007, 5968281047864890890, 7211039996070981522, 1390346846866756478,
     8536808322293417136, 10508766571850398102, 14234945473524244842, 4652026730687652171,
     673269850392642762, 9537166469651395537, 1248185919878133193, 6955648468909173362,
     4082538046580392986, 11320333434923700528, 5196508422007262277, 7653466458071001573,
     2934380318346758296, 7056101655463161606, 1775623241000994827, 8835922724872531263,
     10317101173912571842, 3760137488429096646, 3887378026381602374, 1906809764667242959,
     6949237089307947800, 2557159647892723726, 4268337636465557081, 6214408827886748663,
     6541836685656829497, 13671151246688270078, 10817435948749790064, 9273140566157532435,
     9535911023817931433, 15621438634294759654, 15679627748629017748, 1773436309456983852,
     15740007125350127000, 4420601190234577385, 4278579435148231049, 10981678592433577774,
     14767090636488885523, 8978986655873803016]) =
     [18101556004467638856, 13147129892589754499, 15506209518598520904, 17677154072431257965,
     13782416942460439003, 13923262080877941379, 11000743781784062497, 6052593926224573250]"
  by (simp add: K512_def rotr_def Ch_def Maj_def Sigma0_def Sigma1_def round512_norm
      norm64_numeral norm64_small del: round512.simps)

lemma example_compress_4:
  "compress [8501453268853020341, 16026939196633741158, 16402983492973120199, 470680648633272473,
     16742113269719549721, 12159655452739495592, 4403457545710742582, 1227161705313329579]
     [14, 102, 64, 252, 197, 7, 78, 41, 48, 162, 178, 62, 81, 237, 64, 236, 121, 224, 90, 240, 57,
     227, 78, 49, 37, 93, 210, 27, 29, 178, 253, 218, 251, 188, 75, 31, 225, 110, 96, 14, 211,
     75, 222, 199, 108, 155, 143, 186, 252, 88, 205, 16, 80, 117, 223, 127, 64, 246, 99, 119,
     120, 69, 92, 212, 128, 0, 0, 0, 0, 0, 0, 0, 0, 0, 0, 0, 0, 0, 0, 0, 0, 0, 0, 0, 0, 0, 0,
     0, 0, 0, 0, 0, 0, 0, 0, 0, 0, 0, 0, 0, 0, 0, 0, 0, 0, 0, 0, 0, 0, 0, 0, 0, 0, 0, 0, 0, 0,
     0, 0, 0, 0, 0, 0, 0, 0, 0, 6, 0] =
     [8156265199611107581, 10727325015513944041, 13462448937862089487, 18147834721064530438,
     12077786138470437108, 7636173459907885355, 15404201327494805079, 7279755631537902829]"
  unfolding compress_def example_schedule_4 example_rounds_4
  by (simp add: H512_def)

lemma example_inner_pad:
  "pad512
     [69, 5, 85, 68, 5, 66, 54, 54, 54, 54, 54, 54, 54, 54, 54, 54, 54, 54, 54, 54, 54, 54, 54, 54,
     54, 54, 54, 54, 54, 54, 54, 54, 54, 54, 54, 54, 54, 54, 54, 54, 54, 54, 54, 54, 54, 54,
     54, 54, 54, 54, 54, 54, 54, 54, 54, 54, 54, 54, 54, 54, 54, 54, 54, 54, 54, 54, 54, 54,
     54, 54, 54, 54, 54, 54, 54, 54, 54, 54, 54, 54, 54, 54, 54, 54, 54, 54, 54, 54, 54, 54,
     54, 54, 54, 54, 54, 54, 54, 54, 54, 54, 54, 54, 54, 54, 54, 54, 54, 54, 54, 54, 54, 54,
     54, 54, 54, 54, 54, 54, 54, 54, 54, 54, 54, 54, 54, 54, 54, 54, 100, 49, 48, 46, 53, 49,
     55, 48, 48, 48, 48, 48, 48, 48, 48, 48, 48, 48] =
     [69, 5, 85, 68, 5, 66, 54, 54, 54, 54, 54, 54, 54, 54, 54, 54, 54, 54, 54, 54, 54, 54, 54, 54,
     54, 54, 54, 54, 54, 54, 54, 54, 54, 54, 54, 54, 54, 54, 54, 54, 54, 54, 54, 54, 54, 54,
     54, 54, 54, 54, 54, 54, 54, 54, 54, 54, 54, 54, 54, 54, 54, 54, 54, 54, 54, 54, 54, 54,
     54, 54, 54, 54, 54, 54, 54, 54, 54, 54, 54, 54, 54, 54, 54, 54, 54, 54, 54, 54, 54, 54,
     54, 54, 54, 54, 54, 54, 54, 54, 54, 54, 54, 54, 54, 54, 54, 54, 54, 54, 54, 54, 54, 54,
     54, 54, 54, 54, 54, 54, 54, 54, 54, 54, 54, 54, 54, 54, 54, 54, 100, 49, 48, 46, 53, 49,
     55, 48, 48, 48, 48, 48, 48, 48, 48, 48, 48, 48, 128, 0, 0, 0, 0, 0, 0, 0, 0, 0, 0, 0, 0,
     0, 0, 0, 0, 0, 0, 0, 0, 0, 0, 0, 0, 0, 0, 0, 0, 0, 0, 0, 0, 0, 0, 0, 0, 0, 0, 0, 0, 0, 0,
     0, 0, 0, 0, 0, 0, 0, 0, 0, 0, 0, 0, 0, 0, 0, 0, 0, 0, 0, 0, 0, 0, 0, 0, 0, 0, 0, 0, 0, 0,
     0, 0, 0, 0, 0, 0, 0, 0, 0, 0, 0, 0, 0, 0, 0, 0, 0, 0, 0, 0, 0, 0, 0, 0, 0, 0, 0, 0, 0, 0,
     0, 0, 0, 0, 0, 4, 144]"
proof -
  have len: "length
     [69, 5, 85, 68, 5, 66, 54, 54, 54, 54, 54, 54, 54, 54, 54, 54, 54, 54, 54, 54, 54, 54, 54, 54,
     54, 54, 54, 54, 54, 54, 54, 54, 54, 54, 54, 54, 54, 54, 54, 54, 54, 54, 54, 54, 54, 54,
     54, 54, 54, 54, 54, 54, 54, 54, 54, 54, 54, 54, 54, 54, 54, 54, 54, 54, 54, 54, 54, 54,
     54, 54, 54, 54, 54, 54, 54, 54, 54, 54, 54, 54, 54, 54, 54, 54, 54, 54, 54, 54, 54, 54,
     54, 54, 54, 54, 54, 54, 54, 54, 54, 54, 54, 54, 54, 54, 54, 54, 54, 54, 54, 54, 54, 54,
     54, 54, 54, 54, 54, 54, 54, 54, 54, 54, 54, 54, 54, 54, 54, 54, 100, 49, 48, 46, 53, 49,
     55, 48, 48, 48, 48, 48, 48, 48, 48, 48, 48, 48] = 146"
    by simp
  show ?thesis
    unfolding pad512_def len by (simp add: replicate_numeral be_bytes_numeral)
qed

lemma example_inner_blocks:
  "chunks (length
     [69, 5, 85, 68, 5, 66, 54, 54, 54, 54, 54, 54, 54, 54, 54, 54, 54, 54, 54, 54, 54, 54, 54, 54,
     54, 54, 54, 54, 54, 54, 54, 54, 54, 54, 54, 54, 54, 54, 54, 54, 54, 54, 54, 54, 54, 54,
     54, 54, 54, 54, 54, 54, 54, 54, 54, 54, 54, 54, 54, 54, 54, 54, 54, 54, 54, 54, 54, 54,
     54, 54, 54, 54, 54, 54, 54, 54, 54, 54, 54, 54, 54, 54, 54, 54, 54, 54, 54, 54, 54, 54,
     54, 54, 54, 54, 54, 54, 54, 54, 54, 54, 54, 54, 54, 54, 54, 54, 54, 54, 54, 54, 54, 54,
     54, 54, 54, 54, 54, 54, 54, 54, 54, 54, 54, 54, 54, 54, 54, 54, 100, 49, 48, 46, 53, 49,
     55, 48, 48, 48, 48, 48, 48, 48, 48, 48, 48, 48, 128, 0, 0, 0, 0, 0, 0, 0, 0, 0, 0, 0, 0,
     0, 0, 0, 0, 0, 0, 0, 0, 0, 0, 0, 0, 0, 0, 0, 0, 0, 0, 0, 0, 0, 0, 0, 0, 0, 0, 0, 0, 0, 0,
     0, 0, 0, 0, 0, 0, 0, 0, 0, 0, 0, 0, 0, 0, 0, 0, 0, 0, 0, 0, 0, 0, 0, 0, 0, 0, 0, 0, 0, 0,
     0, 0, 0, 0, 0, 0, 0, 0, 0, 0, 0, 0, 0, 0, 0, 0, 0, 0, 0, 0, 0, 0, 0, 0, 0, 0, 0, 0, 0, 0,
     0, 0, 0, 0, 0, 4, 144] div 128) 128
     [69, 5, 85, 68, 5, 66, 54, 54, 54, 54, 54, 54, 54, 54, 54, 54, 54, 54, 54, 54, 54, 54, 54, 54,
     54, 54, 54, 54, 54, 54, 54, 54, 54, 54, 54, 54, 54, 54, 54, 54, 54, 54, 54, 54, 54, 54,
     54, 54, 54, 54, 54, 54, 54, 54, 54, 54, 54, 54, 54, 54, 54, 54, 54, 54, 54, 54, 54, 54,
     54, 54, 54, 54, 54, 54, 54, 54, 54, 54, 54, 54, 54, 54, 54, 54, 54, 54, 54, 54, 54, 54,
     54, 54, 54, 54, 54, 54, 54, 54, 54, 54, 54, 54, 54, 54, 54, 54, 54, 54, 54, 54, 54, 54,
     54, 54, 54, 54, 54, 54, 54, 54, 54, 54, 54, 54, 54, 54, 54, 54, 100, 49, 48, 46, 53, 49,
     55, 48, 48, 48, 48, 48, 48, 48, 48, 48, 48, 48, 128, 0, 0, 0, 0, 0, 0, 0, 0, 0, 0, 0, 0,
     0, 0, 0, 0, 0, 0, 0, 0, 0, 0, 0, 0, 0, 0, 0, 0, 0, 0, 0, 0, 0, 0, 0, 0, 0, 0, 0, 0, 0, 0,
     0, 0, 0, 0, 0, 0, 0, 0, 0, 0, 0, 0, 0, 0, 0, 0, 0, 0, 0, 0, 0, 0, 0, 0, 0, 0, 0, 0, 0, 0,
     0, 0, 0, 0, 0, 0, 0, 0, 0, 0, 0, 0, 0, 0, 0, 0, 0, 0, 0, 0, 0, 0, 0, 0, 0, 0, 0, 0, 0, 0,
     0, 0, 0, 0, 0, 4, 144] =
     [[69, 5, 85, 68, 5, 66, 54, 54, 54, 54, 54, 54, 54, 54, 54, 54, 54, 54, 54, 54, 54, 54, 54, 54,
     54, 54, 54, 54, 54, 54, 54, 54, 54, 54, 54, 54, 54, 54, 54, 54, 54, 54, 54, 54, 54, 54,
     54, 54, 54, 54, 54, 54, 54, 54, 54, 54, 54, 54, 54, 54, 54, 54, 54, 54, 54, 54, 54, 54,
     54, 54, 54, 54, 54, 54, 54, 54, 54, 54, 54, 54, 54, 54, 54, 54, 54, 54, 54, 54, 54, 54,
     54, 54, 54, 54, 54, 54, 54, 54, 54, 54, 54, 54, 54, 54, 54, 54, 54, 54, 54, 54, 54, 54,
     54, 54, 54, 54, 54, 54, 54, 54, 54, 54, 54, 54, 54, 54, 54, 54],
     [100, 49, 48, 46, 53, 49, 55, 48, 48, 48, 48, 48, 48, 48, 48, 48, 48, 48, 128, 0, 0, 0, 0, 0,
     0, 0, 0, 0, 0, 0, 0, 0, 0, 0, 0, 0, 0, 0, 0, 0, 0, 0, 0, 0, 0, 0, 0, 0, 0, 0, 0, 0, 0, 0,
     0, 0, 0, 0, 0, 0, 0, 0, 0, 0, 0, 0, 0, 0, 0, 0, 0, 0, 0, 0, 0, 0, 0, 0, 0, 0, 0, 0, 0, 0,
     0, 0, 0, 0, 0, 0, 0, 0, 0, 0, 0, 0, 0, 0, 0, 0, 0, 0, 0, 0, 0, 0, 0, 0, 0, 0, 0, 0, 0, 0,
     0, 0, 0, 0, 0, 0, 0, 0, 0, 0, 0, 0, 4, 144]]"
proof -
  have len: "length
     [69, 5, 85, 68, 5, 66, 54, 54, 54, 54, 54, 54, 54, 54, 54, 54, 54, 54, 54, 54, 54, 54, 54, 54,
     54, 54, 54, 54, 54, 54, 54, 54, 54, 54, 54, 54, 54, 54, 54, 54, 54, 54, 54, 54, 54, 54,
     54, 54, 54, 54, 54, 54, 54, 54, 54, 54, 54, 54, 54, 54, 54, 54, 54, 54, 54, 54, 54, 54,
     54, 54, 54, 54, 54, 54, 54, 54, 54, 54, 54, 54, 54, 54, 54, 54, 54, 54, 54, 54, 54, 54,
     54, 54, 54, 54, 54, 54, 54, 54, 54, 54, 54, 54, 54, 54, 54, 54, 54, 54, 54, 54, 54, 54,
     54, 54, 54, 54, 54, 54, 54, 54, 54, 54, 54, 54, 54, 54, 54, 54, 100, 49, 48, 46, 53, 49,
     55, 48, 48, 48, 48, 48, 48, 48, 48, 48, 48, 48, 128, 0, 0, 0, 0, 0, 0, 0, 0, 0, 0, 0, 0,
     0, 0, 0, 0, 0, 0, 0, 0, 0, 0, 0, 0, 0, 0, 0, 0, 0, 0, 0, 0, 0, 0, 0, 0, 0, 0, 0, 0, 0, 0,
     0, 0, 0, 0, 0, 0, 0, 0, 0, 0, 0, 0, 0, 0, 0, 0, 0, 0, 0, 0, 0, 0, 0, 0, 0, 0, 0, 0, 0, 0,
     0, 0, 0, 0, 0, 0, 0, 0, 0, 0, 0, 0, 0, 0, 0, 0, 0, 0, 0, 0, 0, 0, 0, 0, 0, 0, 0, 0, 0, 0,
     0, 0, 0, 0, 0, 4, 144] = 256"
    by simp
  show ?thesis
    unfolding len by (simp add: chunks_numeral)
qed

lemma example_inner_digest:
  "sha512
     [69, 5, 85, 68, 5, 66, 54, 54, 54, 54, 54, 54, 54, 54, 54, 54, 54, 54, 54, 54, 54, 54, 54, 54,
     54, 54, 54, 54, 54, 54, 54, 54, 54, 54, 54, 54, 54, 54, 54, 54, 54, 54, 54, 54, 54, 54,
     54, 54, 54, 54, 54, 54, 54, 54, 54, 54, 54, 54, 54, 54, 54, 54, 54, 54, 54, 54, 54, 54,
     54, 54, 54, 54, 54, 54, 54, 54, 54, 54, 54, 54, 54, 54, 54, 54, 54, 54, 54, 54, 54, 54,
     54, 54, 54, 54, 54, 54, 54, 54, 54, 54, 54, 54, 54, 54, 54, 54, 54, 54, 54, 54, 54, 54,
     54, 54, 54, 54, 54, 54, 54, 54, 54, 54, 54, 54, 54, 54, 54, 54, 100, 49, 48, 46, 53, 49,
     55, 48, 48, 48, 48, 48, 48, 48, 48, 48, 48, 48] =
     [14, 102, 64, 252, 197, 7, 78, 41, 48, 162, 178, 62, 81, 237, 64, 236, 121, 224, 90, 240, 57,
     227, 78, 49, 37, 93, 210, 27, 29, 178, 253, 218, 251, 188, 75, 31, 225, 110, 96, 14, 211,
     75, 222, 199, 108, 155, 143, 186, 252, 88, 205, 16, 80, 117, 223, 127, 64, 246, 99, 119,
     120, 69, 92, 212]"
  unfolding sha512_def Let_def example_inner_pad example_inner_blocks
  by (simp add: example_compress_1 example_compress_2 be_bytes_numeral)

lemma example_outer_pad:
  "pad512
     [47, 111, 63, 46, 111, 40, 92, 92, 92, 92, 92, 92, 92, 92, 92, 92, 92, 92, 92, 92, 92, 92, 92,
     92, 92, 92, 92, 92, 92, 92, 92, 92, 92, 92, 92, 92, 92, 92, 92, 92, 92, 92, 92, 92, 92,
     92, 92, 92, 92, 92, 92, 92, 92, 92, 92, 92, 92, 92, 92, 92, 92, 92, 92, 92, 92, 92, 92,
     92, 92, 92, 92, 92, 92, 92, 92, 92, 92, 92, 92, 92, 92, 92, 92, 92, 92, 92, 92, 92, 92,
     92, 92, 92, 92, 92, 92, 92, 92, 92, 92, 92, 92, 92, 92, 92, 92, 92, 92, 92, 92, 92, 92,
     92, 92, 92, 92, 92, 92, 92, 92, 92, 92, 92, 92, 92, 92, 92, 92, 92, 14, 102, 64, 252, 197,
     7, 78, 41, 48, 162, 178, 62, 81, 237, 64, 236, 121, 224, 90, 240, 57, 227, 78, 49, 37, 93,
     210, 27, 29, 178, 253, 218, 251, 188, 75, 31, 225, 110, 96, 14, 211, 75, 222, 199, 108,
     155, 143, 186, 252, 88, 205, 16, 80, 117, 223, 127, 64, 246, 99, 119, 120, 69, 92, 212] =
     [47, 111, 63, 46, 111, 40, 92, 92, 92, 92, 92, 92, 92, 92, 92, 92, 92, 92, 92, 92, 92, 92, 92,
     92, 92, 92, 92, 92, 92, 92, 92, 92, 92, 92, 92, 92, 92, 92, 92, 92, 92, 92, 92, 92, 92,
     92, 92, 92, 92, 92, 92, 92, 92, 92, 92, 92, 92, 92, 92, 92, 92, 92, 92, 92, 92, 92, 92,
     92, 92, 92, 92, 92, 92, 92, 92, 92, 92, 92, 92, 92, 92, 92, 92, 92, 92, 92, 92, 92, 92,
     92, 92, 92, 92, 92, 92, 92, 92, 92, 92, 92, 92, 92, 92, 92, 92, 92, 92, 92, 92, 92, 92,
     92, 92, 92, 92, 92, 92, 92, 92, 92, 92, 92, 92, 92, 92, 92, 92, 92, 14, 102, 64, 252, 197,
     7, 78, 41, 48, 162, 178, 62, 81, 237, 64, 236, 121, 224, 90, 240, 57, 227, 78, 49, 37, 93,
     210, 27, 29, 178, 253, 218, 251, 188, 75, 31, 225, 110, 96, 14, 211, 75, 222, 199, 108,
     155, 143, 186, 252, 88, 205, 16, 80, 117, 223, 127, 64, 246, 99, 119, 120, 69, 92, 212,
     128, 0, 0, 0, 0, 0, 0, 0, 0, 0, 0, 0, 0, 0, 0, 0, 0, 0, 0, 0, 0, 0, 0, 0, 0, 0, 0, 0, 0,
     0, 0, 0, 0, 0, 0, 0, 0, 0, 0, 0, 0, 0, 0, 0, 0, 0, 0, 0, 0, 0, 0, 0, 0, 0, 0, 0, 0, 0, 0,
     0, 0, 0, 6, 0]"
proof -
  have len: "length
     [47, 111, 63, 46, 111, 40, 92, 92, 92, 92, 92, 92, 92, 92, 92, 92, 92, 92, 92, 92, 92, 92, 92,
     92, 92, 92, 92, 92, 92, 92, 92, 92, 92, 92, 92, 92, 92, 92, 92, 92, 92, 92, 92, 92, 92,
     92, 92, 92, 92, 92, 92, 92, 92, 92, 92, 92, 92, 92, 92, 92, 92, 92, 92, 92, 92, 92, 92,
     92, 92, 92, 92, 92, 92, 92, 92, 92, 92, 92, 92, 92, 92, 92, 92, 92, 92, 92, 92, 92, 92,
     92, 92, 92, 92, 92, 92, 92, 92, 92, 92, 92, 92, 92, 92, 92, 92, 92, 92, 92, 92, 92, 92,
     92, 92, 92, 92, 92, 92, 92, 92, 92, 92, 92, 92, 92, 92, 92, 92, 92, 14, 102, 64, 252, 197,
     7, 78, 41, 48, 162, 178, 62, 81, 237, 64, 236, 121, 224, 90, 240, 57, 227, 78, 49, 37, 93,
     210, 27, 29, 178, 253, 218, 251, 188, 75, 31, 225, 110, 96, 14, 211, 75, 222, 199, 108,
     155, 143, 186, 252, 88, 205, 16, 80, 117, 223, 127, 64, 246, 99, 119, 120, 69, 92, 212] = 192"
    by simp
  show ?thesis
    unfolding pad512_def len by (simp add: replicate_numeral be_bytes_numeral)
qed

lemma example_outer_blocks:
  "chunks (length
     [47, 111, 63, 46, 111, 40, 92, 92, 92, 92, 92, 92, 92, 92, 92, 92, 92, 92, 92, 92, 92, 92, 92,
     92, 92, 92, 92, 92, 92, 92, 92, 92, 92, 92, 92, 92, 92, 92, 92, 92, 92, 92, 92, 92, 92,
     92, 92, 92, 92, 92, 92, 92, 92, 92, 92, 92, 92, 92, 92, 92, 92, 92, 92, 92, 92, 92, 92,
     92, 92, 92, 92, 92, 92, 92, 92, 92, 92, 92, 92, 92, 92, 92, 92, 92, 92, 92, 92, 92, 92,
     92, 92, 92, 92, 92, 92, 92, 92, 92, 92, 92, 92, 92, 92, 92, 92, 92, 92, 92, 92, 92, 92,
     92, 92, 92, 92, 92, 92, 92, 92, 92, 92, 92, 92, 92, 92, 92, 92, 92, 14, 102, 64, 252, 197,
     7, 78, 41, 48, 162, 178, 62, 81, 237, 64, 236, 121, 224, 90, 240, 57, 227, 78, 49, 37, 93,
     210, 27, 29, 178, 253, 218, 251, 188, 75, 31, 225, 110, 96, 14, 211, 75, 222, 199, 108,
     155, 143, 186, 252, 88, 205, 16, 80, 117, 223, 127, 64, 246, 99, 119, 120, 69, 92, 212,
     128, 0, 0, 0, 0, 0, 0, 0, 0, 0, 0, 0, 0, 0, 0, 0, 0, 0, 0, 0, 0, 0, 0, 0, 0, 0, 0, 0, 0,
     0, 0, 0, 0, 0, 0, 0, 0, 0, 0, 0, 0, 0, 0, 0, 0, 0, 0, 0, 0, 0, 0, 0, 0, 0, 0, 0, 0, 0, 0,
     0, 0, 0, 6, 0] div 128) 128
     [47, 111, 63, 46, 111, 40, 92, 92, 92, 92, 92, 92, 92, 92, 92, 92, 92, 92, 92, 92, 92, 92, 92,
     92, 92, 92, 92, 92, 92, 92, 92, 92, 92, 92, 92, 92, 92, 92, 92, 92, 92, 92, 92, 92, 92,
     92, 92, 92, 92, 92, 92, 92, 92, 92, 92, 92, 92, 92, 92, 92, 92, 92, 92, 92, 92, 92, 92,
     92, 92, 92, 92, 92, 92, 92, 92, 92, 92, 92, 92, 92, 92, 92, 92, 92, 92, 92, 92, 92, 92,
     92, 92, 92, 92, 92, 92, 92, 92, 92, 92, 92, 92, 92, 92, 92, 92, 92, 92, 92, 92, 92, 92,
     92, 92, 92, 92, 92, 92, 92, 92, 92, 92, 92, 92, 92, 92, 92, 92, 92, 14, 102, 64, 252, 197,
     7, 78, 41, 48, 162, 178, 62, 81, 237, 64, 236, 121, 224, 90, 240, 57, 227, 78, 49, 37, 93,
     210, 27, 29, 178, 253, 218, 251, 188, 75, 31, 225, 110, 96, 14, 211, 75, 222, 199, 108,
     155, 143, 186, 252, 88, 205, 16, 80, 117, 223, 127, 64, 246, 99, 119, 120, 69, 92, 212,
     128, 0, 0, 0, 0, 0, 0, 0, 0, 0, 0, 0, 0, 0, 0, 0, 0, 0, 0, 0, 0, 0, 0, 0, 0, 0, 0, 0, 0,
     0, 0, 0, 0, 0, 0, 0, 0, 0, 0, 0, 0, 0, 0, 0, 0, 0, 0, 0, 0, 0, 0, 0, 0, 0, 0, 0, 0, 0, 0,
     0, 0, 0, 6, 0] =
     [[47, 111, 63, 46, 111, 40, 92, 92, 92, 92, 92, 92, 92, 92, 92, 92, 92, 92, 92, 92, 92, 92, 92,
     92, 92, 92, 92, 92, 92, 92, 92, 92, 92, 92, 92, 92, 92, 92, 92, 92, 92, 92, 92, 92, 92,
     92, 92, 92, 92, 92, 92, 92, 92, 92, 92, 92, 92, 92, 92, 92, 92, 92, 92, 92, 92, 92, 92,
     92, 92, 92, 92, 92, 92, 92, 92, 92, 92, 92, 92, 92, 92, 92, 92, 92, 92, 92, 92, 92, 92,
     92, 92, 92, 92, 92, 92, 92, 92, 92, 92, 92, 92, 92, 92, 92, 92, 92, 92, 92, 92, 92, 92,
     92, 92, 92, 92, 92, 92, 92, 92, 92, 92, 92, 92, 92, 92, 92, 92, 92],
     [14, 102, 64, 252, 197, 7, 78, 41, 48, 162, 178, 62, 81, 237, 64, 236, 121, 224, 90, 240, 57,
     227, 78, 49, 37, 93, 210, 27, 29, 178, 253, 218, 251, 188, 75, 31, 225, 110, 96, 14, 211,
     75, 222, 199, 108, 155, 143, 186, 252, 88, 205, 16, 80, 117, 223, 127, 64, 246, 99, 119,
     120, 69, 92, 212, 128, 0, 0, 0, 0, 0, 0, 0, 0, 0, 0, 0, 0, 0, 0, 0, 0, 0, 0, 0, 0, 0, 0,
     0, 0, 0, 0, 0, 0, 0, 0, 0, 0, 0, 0, 0, 0, 0, 0, 0, 0, 0, 0, 0, 0, 0, 0, 0, 0, 0, 0, 0, 0,
     0, 0, 0, 0, 0, 0, 0, 0, 0, 6, 0]]"
proof -
  have len: "length
     [47, 111, 63, 46, 111, 40, 92, 92, 92, 92, 92, 92, 92, 92, 92, 92, 92, 92, 92, 92, 92, 92, 92,
     92, 92, 92, 92, 92, 92, 92, 92, 92, 92, 92, 92, 92, 92, 92, 92, 92, 92, 92, 92, 92, 92,
     92, 92, 92, 92, 92, 92, 92, 92, 92, 92, 92, 92, 92, 92, 92, 92, 92, 92, 92, 92, 92, 92,
     92, 92, 92, 92, 92, 92, 92, 92, 92, 92, 92, 92, 92, 92, 92, 92, 92, 92, 92, 92, 92, 92,
     92, 92, 92, 92, 92, 92, 92, 92, 92, 92, 92, 92, 92, 92, 92, 92, 92, 92, 92, 92, 92, 92,
     92, 92, 92, 92, 92, 92, 92, 92, 92, 92, 92, 92, 92, 92, 92, 92, 92, 14, 102, 64, 252, 197,
     7, 78, 41, 48, 162, 178, 62, 81, 237, 64, 236, 121, 224, 90, 240, 57, 227, 78, 49, 37, 93,
     210, 27, 29, 178, 253, 218, 251, 188, 75, 31, 225, 110, 96, 14, 211, 75, 222, 199, 108,
     155, 143, 186, 252, 88, 205, 16, 80, 117, 223, 127, 64, 246, 99, 119, 120, 69, 92, 212,
     128, 0, 0, 0, 0, 0, 0, 0, 0, 0, 0, 0, 0, 0, 0, 0, 0, 0, 0, 0, 0, 0, 0, 0, 0, 0, 0, 0, 0,
     0, 0, 0, 0, 0, 0, 0, 0, 0, 0, 0, 0, 0, 0, 0, 0, 0, 0, 0, 0, 0, 0, 0, 0, 0, 0, 0, 0, 0, 0,
     0, 0, 0, 6, 0] = 256"
    by simp
  show ?thesis
    unfolding len by (simp add: chunks_numeral)
qed

lemma example_outer_digest:
  "sha512
     [47, 111, 63, 46, 111, 40, 92, 92, 92, 92, 92, 92, 92, 92, 92, 92, 92, 92, 92, 92, 92, 92, 92,
     92, 92, 92, 92, 92, 92, 92, 92, 92, 92, 92, 92, 92, 92, 92, 92, 92, 92, 92, 92, 92, 92,
     92, 92, 92, 92, 92, 92, 92, 92, 92, 92, 92, 92, 92, 92, 92, 92, 92, 92, 92, 92, 92, 92,
     92, 92, 92, 92, 92, 92, 92, 92, 92, 92, 92, 92, 92, 92, 92, 92, 92, 92, 92, 92, 92, 92,
     92, 92, 92, 92, 92, 92, 92, 92, 92, 92, 92, 92, 92, 92, 92, 92, 92, 92, 92, 92, 92, 92,
     92, 92, 92, 92, 92, 92, 92, 92, 92, 92, 92, 92, 92, 92, 92, 92, 92, 14, 102, 64, 252, 197,
     7, 78, 41, 48, 162, 178, 62, 81, 237, 64, 236, 121, 224, 90, 240, 57, 227, 78, 49, 37, 93,
     210, 27, 29, 178, 253, 218, 251, 188, 75, 31, 225, 110, 96, 14, 211, 75, 222, 199, 108,
     155, 143, 186, 252, 88, 205, 16, 80, 117, 223, 127, 64, 246, 99, 119, 120, 69, 92, 212] =
     [113, 48, 223, 252, 60, 179, 88, 253, 148, 223, 29, 68, 11, 222, 207, 233, 186, 212, 57, 251,
     92, 26, 203, 15, 251, 218, 15, 135, 7, 141, 50, 6, 167, 156, 234, 128, 136, 170, 208, 244,
     105, 249, 35, 77, 185, 19, 57, 43, 213, 198, 183, 126, 13, 237, 182, 87, 101, 6, 227, 45,
     85, 119, 84, 237]"
  unfolding sha512_def Let_def example_outer_pad example_outer_blocks
  by (simp add: example_compress_3 example_compress_4 be_bytes_numeral)

lemma example_hmac:
  "hex (hmac_sha512 (Buffer_from ''s3cr3t'') (Buffer_from ''d10.51700000000000'')) =
     ''7130dffc3cb358fd94df1d440bdecfe9bad439fb5c1acb0ffbda0f87078d3206a79cea8088aad0f469f9234db913392bd5c6b77e0dedb6576506e32d557754ed''"
  by (simp add: hmac_sha512_def Buffer_from_def utf8_def replicate_numeral Let_def
      example_inner_digest example_outer_digest hex_def hex_char_def)

section \<open>The signature\<close>

lemma hex_char_lowercase: "hex_char d \<in> set ''0123456789abcdef''"
  unfolding hex_char_def by (rule nth_mem) simp

lemma hex_lowercase: "set (hex bs) \<subseteq> set ''0123456789abcdef''"
  unfolding hex_def using hex_char_lowercase by (induction bs) auto

text \<open>
  C6. With the secret key \<^verbatim>\<open>s3cr3t\<close>, the parameters
  \<^verbatim>\<open>{deposit_id: "D1", min_amount: 0.5}\<close> and the clock at 1700000000000, the canonical
  string is \<^verbatim>\<open>D10.5\<close>, the signed material in lower case is \<^verbatim>\<open>d10.51700000000000\<close>,
  and the signature the generator returns is the hexadecimal text, in lower case digits,
  of the HMAC with SHA-512 of that material under the key \<^verbatim>\<open>s3cr3t\<close>.
\<close>

theorem signature_example:
  "stringData [(''deposit_id'', Str ''D1''), (''min_amount'', Num (Finite False 5 0))] = ''D10.5''
   \<and> signed_material [(''deposit_id'', Str ''D1''), (''min_amount'', Num (Finite False 5 0))]
        1700000000000 = ''d10.51700000000000''
   \<and> clock ticking_world (reads ticking_world) = 1700000000000
   \<and> secretKey example_client = ''s3cr3t''
   \<and> fst (generateSignature example_client
          [(''deposit_id'', Str ''D1''), (''min_amount'', Num (Finite False 5 0))] ticking_world)
       = hex (hmac_sha512 (Buffer_from ''s3cr3t'') (Buffer_from ''d10.51700000000000''))
   \<and> fst (generateSignature example_client
          [(''deposit_id'', Str ''D1''), (''min_amount'', Num (Finite False 5 0))] ticking_world)
       = ''7130dffc3cb358fd94df1d440bdecfe9bad439fb5c1acb0ffbda0f87078d3206a79cea8088aad0f469f9234db913392bd5c6b77e0dedb6576506e32d557754ed''
   \<and> set (fst (generateSignature example_client
          [(''deposit_id'', Str ''D1''), (''min_amount'', Num (Finite False 5 0))] ticking_world))
       \<subseteq> set ''0123456789abcdef''"
proof -
  let ?ps = "[(''deposit_id'', Str ''D1''), (''min_amount'', Num (Finite False 5 0))]"
  have a: "stringData ?ps = ''D10.5''" by (simp add: canon_eval)
  have b: "signed_material ?ps 1700000000000 = ''d10.51700000000000''"
    by (simp add: material_eval)
  have c: "clock ticking_world (reads ticking_world) = 1700000000000"
    by (simp add: ticking_world_def)
  have d: "secretKey example_client = ''s3cr3t''" by (simp add: example_client_def)
  have e: "fst (generateSignature example_client ?ps ticking_world)
       = hex (hmac_sha512 (Buffer_from ''s3cr3t'') (Buffer_from ''d10.51700000000000''))"
    by (simp add: generateSignature_def Date_now_def signature_at_def b c d)
  have f: "set (fst (generateSignature example_client ?ps ticking_world))
       \<subseteq> set ''0123456789abcdef''"
    unfolding e by (rule hex_lowercase)
  have g: "fst (generateSignature example_client ?ps ticking_world)
       = ''7130dffc3cb358fd94df1d440bdecfe9bad439fb5c1acb0ffbda0f87078d3206a79cea8088aad0f469f9234db913392bd5c6b77e0dedb6576506e32d557754ed''"
    unfolding e by (rule example_hmac)
  from a b c d e f g show ?thesis by blast
qed

section \<open>The dispatcher\<close>

text \<open>
  Signing reads the clock twice: once for the header slot, once inside the generator.
\<close>

lemma sign_headers_eq:
  "sign_headers this params w =
     (this\<lparr>client_headers := (client_headers this)
        \<lparr>X_Timestamp := Some (clock w (reads w)),
         X_Signature := Some (signature_at (secretKey this) params (clock w (Suc (reads w))))\<rparr>\<rparr>,
      w\<lparr>reads := Suc (Suc (reads w))\<rparr>)"
  by (simp add: sign_headers_def Date_now_def generateSignature_def
      set_X_Timestamp_def set_X_Signature_def)

lemma client_post_eq:
  "client_post this url body w =
     (interceptor (settle (network w (length (sent w)))), this,
      w\<lparr>sent := sent w @
         [\<lparr>req_method = ''post'', req_baseURL = client_baseURL this, req_url = url,
           req_headers = client_headers this, req_params = None, req_data = body\<rparr>]\<rparr>)"
  by (simp add: client_post_def client_request_def)

lemma client_get_None_eq:
  "client_get this url None w =
     (interceptor (settle (network w (length (sent w)))), this,
      w\<lparr>sent := sent w @
         [\<lparr>req_method = ''get'', req_baseURL = client_baseURL this, req_url = url,
           req_headers = client_headers this, req_params = None, req_data = Undefined\<rparr>]\<rparr>)"
  by (simp add: client_get_def client_request_def)

lemma return_data_simps:
  "fst (snd (return_data r)) = fst (snd r)" "snd (snd (return_data r)) = snd (snd r)"
  by (auto simp: return_data_def split: prod.splits sum.splits)

lemma paramsSerializer_world:
  "network (snd (paramsSerializer this p w)) = network w"
  "sent (snd (paramsSerializer this p w)) = sent w"
  by (simp_all add: paramsSerializer_def Date_now_def generateSignature_def Let_def)

subsection \<open>The timestamp header and the signed timestamp\<close>

lemma CreateDeposit_request:
  "\<not> falsy deposit_id \<Longrightarrow>
   sent (snd (snd (CreateDeposit this deposit_id steam_id trade_url min_amount w))) =
     sent w @
       [\<lparr>req_method = ''post'', req_baseURL = client_baseURL this, req_url = ''deposit'',
         req_headers = (client_headers this)
           \<lparr>X_Timestamp := Some (clock w (reads w)),
            X_Signature := Some (signature_at (secretKey this)
               [(''deposit_id'', deposit_id),
                (''steam_id'', default_to Null steam_id),
                (''trade_url'', default_to (Str []) trade_url),
                (''min_amount'', default_to (Num (Finite False 5 0)) min_amount),
                (''result_url'', resultUrl this),
                (''fail_url'', failUrl this),
                (''success_url'', successUrl this),
                (''priority_game'', priorityGame this)] (clock w (Suc (reads w))))\<rparr>,
         req_params = None,
         req_data = Obj
               [(''deposit_id'', deposit_id),
                (''steam_id'', default_to Null steam_id),
                (''trade_url'', default_to (Str []) trade_url),
                (''min_amount'', default_to (Num (Finite False 5 0)) min_amount),
                (''result_url'', resultUrl this),
                (''fail_url'', failUrl this),
                (''success_url'', successUrl this),
                (''priority_game'', priorityGame this)]\<rparr>]"
  by (simp add: CreateDeposit_def sign_headers_eq client_post_eq Let_def return_data_simps)

text \<open>
  C1, where the code departs from it. \<^verbatim>\<open>CreateDeposit('D1')\<close> on the example client,
  with a clock that advances by a millisecond between two readings: the request carries
  the timestamp header 1700000000000, and its signature is the one over the material that
  ends in 1700000000001, the reading the generator took for itself and did not return.
\<close>

theorem CreateDeposit_timestamps_differ:
  "map req_headers (sent (snd (snd
      (CreateDeposit example_client (Str ''D1'') Undefined Undefined Undefined ticking_world)))) =
     [\<lparr>hdr_apiKey = ''k3y'', X_Timestamp = Some 1700000000000,
       X_Signature = Some (signature_at ''s3cr3t'' deposit_D1 1700000000001)\<rparr>]
   \<and> signed_material deposit_D1 1700000000001 = ''d10.57301700000000001''
   \<and> signed_material deposit_D1 1700000000000 = ''d10.57301700000000000''"
proof (intro conjI)
  show "map req_headers (sent (snd (snd
      (CreateDeposit example_client (Str ''D1'') Undefined Undefined Undefined ticking_world)))) =
     [\<lparr>hdr_apiKey = ''k3y'', X_Timestamp = Some 1700000000000,
       X_Signature = Some (signature_at ''s3cr3t'' deposit_D1 1700000000001)\<rparr>]"
    by (simp add: CreateDeposit_request default_to_def deposit_D1_def example_client_def
        ticking_world_def)
  show "signed_material deposit_D1 1700000000001 = ''d10.57301700000000001''"
    by (simp add: deposit_D1_def material_eval)
  show "signed_material deposit_D1 1700000000000 = ''d10.57301700000000000''"
    by (simp add: deposit_D1_def material_eval)
qed

subsection \<open>The call without parameters\<close>

lemma GetProjectBalance_request:
  "snd (GetProjectBalance this w) =
     (this, w\<lparr>sent := sent w @
         [\<lparr>req_method = ''get'', req_baseURL = client_baseURL this, req_url = ''project/balance'',
           req_headers = client_headers this, req_params = None, req_data = Undefined\<rparr>]\<rparr>)"
  by (simp add: GetProjectBalance_def client_get_None_eq prod_eq_iff return_data_simps)

text \<open>
  C2, where the code departs from it. \<^verbatim>\<open>GetProjectBalance()\<close> on a client just
  constructed: the one request issued carries neither a timestamp header nor a signature
  header, and the clock has not been read. (In general the request carries whatever the
  two slots held before the call, as \<open>GetProjectBalance_request\<close> says.)
\<close>

theorem GetProjectBalance_unsigned:
  "map req_headers (sent (snd (snd (GetProjectBalance example_client ticking_world)))) =
     [\<lparr>hdr_apiKey = ''k3y'', X_Timestamp = None, X_Signature = None\<rparr>]
   \<and> reads (snd (snd (GetProjectBalance example_client ticking_world))) = 0"
  by (simp add: GetProjectBalance_request example_client_def ticking_world_def)

subsection \<open>The composite call\<close>

lemma CreateOffer_at_most_one_request:
  "globals w ''params'' = None \<Longrightarrow>
   length (sent (snd (snd (CreateOffer this deposit_id steam_id app_id trade_url item_array w))))
     \<le> Suc (length (sent w))"
  by (simp add: CreateOffer_def sign_headers_eq client_post_eq Let_def resolve_def
      split: sum.splits)

text \<open>
  With \<^verbatim>\<open>params\<close> unbound the call stops at line 137; with \<^verbatim>\<open>params\<close> bound in the
  global object the second request carries that value, not the trade parameters, and
  line 139 then reads \<^verbatim>\<open>result.data\<close> of \<^verbatim>\<open>undefined\<close>. Either way no value is returned.
\<close>

lemma CreateOffer_never_returns:
  "fst (CreateOffer this deposit_id steam_id app_id trade_url item_array w) \<noteq> Inr v"
  by (simp add: CreateOffer_def sign_headers_eq client_post_eq Let_def resolve_def
      get_property_def split: sum.splits option.splits)

text \<open>
  C3, where the code departs from it. \<^verbatim>\<open>CreateOffer('D1')\<close> on the example client, the
  first request answered with \<^verbatim>\<open>{"trade_id": "T1"}\<close>: the call rejects with a
  \<^verbatim>\<open>ReferenceError\<close> for \<^verbatim>\<open>params\<close>, and the only request issued is the first one, with
  the deposit parameters as its body. (With no global \<^verbatim>\<open>params\<close> at most one request is
  issued for all arguments, and the call never returns a value: the two lemmas above.)
\<close>

theorem CreateOffer_stops_after_first_request:
  "fst (CreateOffer example_client (Str ''D1'') Undefined Undefined Undefined Undefined ticking_world)
     = Inl (ReferenceError ''params is not defined'')
   \<and> map req_data (sent (snd (snd
        (CreateOffer example_client (Str ''D1'') Undefined Undefined Undefined Undefined
           ticking_world))))
     = [Obj [(''deposit_id'', Str ''D1''), (''steam_id'', Null)]]"
  by (simp add: CreateOffer_def sign_headers_eq client_post_eq Let_def default_to_def
      example_client_def ticking_world_def settle_def interceptor_def get_property_def
      resolve_def)

subsection \<open>Two calls on one instance\<close>

text \<open>The two parts of a call, run one after the other, are the call.\<close>

lemma client_get_in_parts:
  "client_get this url (Some ps) w =
     (let (config, this1, w1) = start (Query_get url ps) this w
      in finish (Query_get url ps) config this1 w1)"
  by (simp add: client_get_def client_request_def start_def finish_def prepare_def
      transmit_def split: prod.splits)

lemma signed_post_in_parts:
  "(let (this1, w1) = sign_headers this ps w in client_post this1 url (Obj ps) w1) =
     (let (config, this1, w1) = start (Signed_post url ps) this w
      in finish (Signed_post url ps) config this1 w1)"
  by (simp add: client_post_def client_request_def start_def finish_def prepare_def
      transmit_def split: prod.splits)

lemma CreateDeposit_in_parts:
  "\<not> falsy deposit_id \<Longrightarrow>
   CreateDeposit this deposit_id steam_id trade_url min_amount w =
     return_data
       (let ps = [(''deposit_id'', deposit_id),
                  (''steam_id'', default_to Null steam_id),
                  (''trade_url'', default_to (Str []) trade_url),
                  (''min_amount'', default_to (Num (Finite False 5 0)) min_amount),
                  (''result_url'', resultUrl this),
                  (''fail_url'', failUrl this),
                  (''success_url'', successUrl this),
                  (''priority_game'', priorityGame this)];
            (config, this1, w1) = start (Signed_post ''deposit'' ps) this w
        in finish (Signed_post ''deposit'' ps) config this1 w1)"
  by (simp add: CreateDeposit_def Let_def client_post_def client_request_def start_def
      finish_def prepare_def transmit_def split: prod.splits)

lemma GetStatusDeposit_in_parts:
  "\<not> falsy trade_id \<Longrightarrow>
   GetStatusDeposit this trade_id w =
     return_data
       (let (config, this1, w1) = start (Query_get ''deposit/status'' [(''trade_id'', trade_id)]) this w
        in finish (Query_get ''deposit/status'' [(''trade_id'', trade_id)]) config this1 w1)"
  by (simp add: GetStatusDeposit_def client_get_in_parts)

lemma paramsSerializer_eq:
  "paramsSerializer this params w =
     (this\<lparr>client_headers := (client_headers this)
        \<lparr>X_Timestamp := Some (clock w (reads w)),
         X_Signature := Some (signature_at (secretKey this) params (clock w (Suc (reads w))))\<rparr>\<rparr>,
      w\<lparr>reads := Suc (Suc (reads w))\<rparr>)"
  by (simp add: paramsSerializer_def Date_now_def generateSignature_def
      set_X_Timestamp_def set_X_Signature_def)

lemmas session_eval =
  run_def run_step_def start_def finish_def prepare_def transmit_def new_session_def
  carries_own_pair_def carries_other_pair_def header_pair_def two_calls_def sign_headers_eq
  paramsSerializer_eq

text \<open>
  Two signing POSTs keep the property in every order of their parts: the pair is written
  and copied into the request within one part.
\<close>

lemma two_posts_carry_their_own_pairs:
  "list_all
     (\<lambda>steps.
        carries_own_pair (run (two_calls (Signed_post u1 p1) (Signed_post u2 p2)) steps
                            (new_session this w)) First
        \<and> carries_own_pair (run (two_calls (Signed_post u1 p1) (Signed_post u2 p2)) steps
                              (new_session this w)) Second)
     schedules"
  by (simp add: schedules_def session_eval)

text \<open>
  C10, where the code departs from it. \<^verbatim>\<open>CreateDeposit('D1')\<close> and
  \<^verbatim>\<open>GetStatusDeposit('T1')\<close> on the example client. Run one after the other, both
  requests go out with the pair of the deposit, and the pair that the GET computed for
  its own parameters stays in the slots of the instance, for the next request to take or
  the next signing to overwrite. Run as two calls in flight, in each of the six orders of
  their parts the request of the POST carries the pair its call computed and the request
  of the GET carries another: the GET's headers are fixed before its signing runs. When
  the two first parts run back to back, the GET goes out with the pair of the deposit.
\<close>

theorem get_request_carries_another_calls_pair:
  "(let r1 = CreateDeposit example_client (Str ''D1'') Undefined Undefined Undefined ticking_world;
        r2 = GetStatusDeposit (fst (snd r1)) (Str ''T1'') (snd (snd r1))
    in map header_pair (map req_headers (sent (snd (snd r2)))) =
         [(Some 1700000000000, Some (signature_at ''s3cr3t'' deposit_D1 1700000000001)),
          (Some 1700000000000, Some (signature_at ''s3cr3t'' deposit_D1 1700000000001))]
       \<and> header_pair (client_headers (fst (snd r2))) =
           (Some 1700000000002,
            Some (signature_at ''s3cr3t'' [(''trade_id'', Str ''T1'')] 1700000000003)))
   \<and> map (\<lambda>p. map_option (\<lambda>config. header_pair (req_headers config))
                (in_flight
                   (run (two_calls (Signed_post ''deposit'' deposit_D1)
                                   (Query_get ''deposit/status'' [(''trade_id'', Str ''T1'')]))
                      [Start First, Start Second, Finish First, Finish Second]
                      (new_session example_client ticking_world)) p))
         [First, Second] =
       [Some (Some 1700000000000, Some (signature_at ''s3cr3t'' deposit_D1 1700000000001)),
        Some (Some 1700000000000, Some (signature_at ''s3cr3t'' deposit_D1 1700000000001))]
   \<and> list_all
        (\<lambda>steps.
           carries_own_pair
             (run (two_calls (Signed_post ''deposit'' deposit_D1)
                             (Query_get ''deposit/status'' [(''trade_id'', Str ''T1'')]))
                steps (new_session example_client ticking_world)) First
           \<and> carries_other_pair
             (run (two_calls (Signed_post ''deposit'' deposit_D1)
                             (Query_get ''deposit/status'' [(''trade_id'', Str ''T1'')]))
                steps (new_session example_client ticking_world)) Second)
        schedules"
proof (intro conjI)
  show "let r1 = CreateDeposit example_client (Str ''D1'') Undefined Undefined Undefined ticking_world;
        r2 = GetStatusDeposit (fst (snd r1)) (Str ''T1'') (snd (snd r1))
    in map header_pair (map req_headers (sent (snd (snd r2)))) =
         [(Some 1700000000000, Some (signature_at ''s3cr3t'' deposit_D1 1700000000001)),
          (Some 1700000000000, Some (signature_at ''s3cr3t'' deposit_D1 1700000000001))]
       \<and> header_pair (client_headers (fst (snd r2))) =
           (Some 1700000000002,
            Some (signature_at ''s3cr3t'' [(''trade_id'', Str ''T1'')] 1700000000003))"
    by (simp add: Let_def CreateDeposit_def GetStatusDeposit_def sign_headers_eq client_post_eq
        client_get_def client_request_def paramsSerializer_eq return_data_simps default_to_def
        deposit_D1_def header_pair_def example_client_def ticking_world_def)
  show "map (\<lambda>p. map_option (\<lambda>config. header_pair (req_headers config))
                (in_flight
                   (run (two_calls (Signed_post ''deposit'' deposit_D1)
                                   (Query_get ''deposit/status'' [(''trade_id'', Str ''T1'')]))
                      [Start First, Start Second, Finish First, Finish Second]
                      (new_session example_client ticking_world)) p))
         [First, Second] =
       [Some (Some 1700000000000, Some (signature_at ''s3cr3t'' deposit_D1 1700000000001)),
        Some (Some 1700000000000, Some (signature_at ''s3cr3t'' deposit_D1 1700000000001))]"
    by (simp add: session_eval example_client_def ticking_world_def)
  show "list_all
        (\<lambda>steps.
           carries_own_pair
             (run (two_calls (Signed_post ''deposit'' deposit_D1)
                             (Query_get ''deposit/status'' [(''trade_id'', Str ''T1'')]))
                steps (new_session example_client ticking_world)) First
           \<and> carries_other_pair
             (run (two_calls (Signed_post ''deposit'' deposit_D1)
                             (Query_get ''deposit/status'' [(''trade_id'', Str ''T1'')]))
                steps (new_session example_client ticking_world)) Second)
        schedules"
    by (simp add: schedules_def session_eval example_client_def ticking_world_def)
qed

section \<open>Errors\<close>

subsection \<open>Failures of the transport\<close>

lemma JSON_stringify_absent: "(JSON_stringify d = None) = (d = Undefined)"
  by (cases d) simp_all

text \<open>
  C7, as amended. Whatever happens to a request, the caller gets the response (status 200
  to 299) or an \<^verbatim>\<open>Error\<close>, always of the one class \<^verbatim>\<open>Error\<close>, whose message is
  \<^verbatim>\<open>SkinVend API Error: \<close> followed by: the status, a dash and the JSON text of the
  payload, for a response with another status; \<^verbatim>\<open>No response received\<close>, for a request
  that got no response; the message of the failure, for a request that could not be sent.
  The JSON text is absent (spelled \<^verbatim>\<open>undefined\<close>) only for an absent payload. The error of
  the transport itself never reaches the caller. The status and the payload are carried
  inside the message only, and the three forms are not three kinds: messages of different
  forms can coincide.
\<close>

theorem transport_outcome_normalized:
  "fst (client_request this method url params body w) =
     (case network w (length (sent w)) of
        Responded r \<Rightarrow>
          if 200 \<le> res_status r \<and> res_status r < 300 then Inr r
          else Inl (Error (''SkinVend API Error: '' @ ToString (Num (Number_of_nat (res_status r)))
                           @ '' - '' @ template_text (JSON_stringify (res_data r))))
      | NoResponse m \<Rightarrow> Inl (Error ''SkinVend API Error: No response received'')
      | NotSent m \<Rightarrow> Inl (Error (''SkinVend API Error: '' @ m)))
   \<and> (\<forall>d. (JSON_stringify d = None) = (d = Undefined))"
proof -
  obtain this1 w1 where
    s: "(case params of None \<Rightarrow> (this, w) | Some p \<Rightarrow> paramsSerializer this p w) = (this1, w1)"
    by (cases "(case params of None \<Rightarrow> (this, w) | Some p \<Rightarrow> paramsSerializer this p w)") blast
  have n: "network w1 = network w" and l: "sent w1 = sent w"
    using s paramsSerializer_world [of this _ w]
    by (auto split: option.splits simp: prod_eq_iff)
  show ?thesis
    by (simp add: client_request_def s n l interceptor_def settle_def JSON_stringify_absent
        split: exchange.splits)
qed

text \<open>
  On the example client: a response 422 with the payload \<^verbatim>\<open>{"error":"bad_amount"}\<close>, a
  response 500 with the payload \<^verbatim>\<open>[1,true,null]\<close>, a response 200, a request without
  response and a request that could not be sent.
\<close>

theorem transport_outcome_witness:
  "fst (client_request example_client ''post'' ''deposit'' None (Obj deposit_D1)
         (ticking_world\<lparr>network := (\<lambda>i. Responded
            \<lparr>res_status = 422, res_data = Obj [(''error'', Str ''bad_amount'')]\<rparr>)\<rparr>))
     = Inl (Error (''SkinVend API Error: 422 - {'' @ [CHR 0x22] @ ''error'' @ [CHR 0x22] @ '':''
                   @ [CHR 0x22] @ ''bad_amount'' @ [CHR 0x22] @ ''}''))
   \<and> fst (client_request example_client ''get'' ''deposit/status''
         (Some [(''trade_id'', Str ''T1'')]) Undefined
         (ticking_world\<lparr>network := (\<lambda>i. Responded
            \<lparr>res_status = 500,
             res_data = Arr [Num (Finite False 1 1), Bool True, Undefined]\<rparr>)\<rparr>))
     = Inl (Error ''SkinVend API Error: 500 - [1,true,null]'')
   \<and> fst (client_request example_client ''get'' ''project/balance'' None Undefined ticking_world)
     = Inr \<lparr>res_status = 200, res_data = Obj [(''trade_id'', Str ''T1'')]\<rparr>
   \<and> fst (client_request example_client ''get'' ''project/balance'' None Undefined
         (ticking_world\<lparr>network := (\<lambda>i. NoResponse ''timeout of 10000ms exceeded'')\<rparr>))
     = Inl (Error ''SkinVend API Error: No response received'')
   \<and> fst (client_request example_client ''get'' ''project/balance'' None Undefined
         (ticking_world\<lparr>network := (\<lambda>i. NotSent ''Network Error'')\<rparr>))
     = Inl (Error ''SkinVend API Error: Network Error'')"
  using
    transport_outcome_normalized [of example_client "''post''" "''deposit''" None "Obj deposit_D1"
      "ticking_world\<lparr>network := (\<lambda>i. Responded
            \<lparr>res_status = 422, res_data = Obj [(''error'', Str ''bad_amount'')]\<rparr>)\<rparr>"]
    transport_outcome_normalized [of example_client "''get''" "''deposit/status''"
      "Some [(''trade_id'', Str ''T1'')]" Undefined
      "ticking_world\<lparr>network := (\<lambda>i. Responded
            \<lparr>res_status = 500,
             res_data = Arr [Num (Finite False 1 1), Bool True, Undefined]\<rparr>)\<rparr>"]
    transport_outcome_normalized [of example_client "''get''" "''project/balance''" None Undefined
      ticking_world]
    transport_outcome_normalized [of example_client "''get''" "''project/balance''" None Undefined
      "ticking_world\<lparr>network := (\<lambda>i. NoResponse ''timeout of 10000ms exceeded'')\<rparr>"]
    transport_outcome_normalized [of example_client "''get''" "''project/balance''" None Undefined
      "ticking_world\<lparr>network := (\<lambda>i. NotSent ''Network Error'')\<rparr>"]
  by (simp add: ticking_world_def Number_of_nat_def digits.simps digit_char_def
      positive_text_def template_text_def own_entries_def is_array_index_def is_digit_def
      join_def json_quote_def json_escape_def)

text \<open>
  C7 as stated fails: the errors are not of three kinds. A request that could not be sent,
  with the failure message \<^verbatim>\<open>No response received\<close>, gives the caller the very error of
  a request that got no response; with the failure message \<^verbatim>\<open>500 - null\<close> it gives the
  very error of a response 500 with the payload \<^verbatim>\<open>null\<close>. The caller holds an
  \<^verbatim>\<open>Error\<close> with a message and nothing that carries the kind, the status or the payload.
\<close>

theorem error_kinds_coincide:
  "fst (client_request example_client ''get'' ''project/balance'' None Undefined
         (ticking_world\<lparr>network := (\<lambda>i. NotSent ''No response received'')\<rparr>))
     = fst (client_request example_client ''get'' ''project/balance'' None Undefined
         (ticking_world\<lparr>network := (\<lambda>i. NoResponse ''timeout of 10000ms exceeded'')\<rparr>))
   \<and> fst (client_request example_client ''get'' ''project/balance'' None Undefined
         (ticking_world\<lparr>network := (\<lambda>i. NotSent ''500 - null'')\<rparr>))
     = fst (client_request example_client ''get'' ''project/balance'' None Undefined
         (ticking_world\<lparr>network := (\<lambda>i. Responded \<lparr>res_status = 500, res_data = Null\<rparr>)\<rparr>))"
  by (simp add: client_request_def settle_def interceptor_def ticking_world_def
      Number_of_nat_def digits.simps digit_char_def positive_text_def template_text_def)

subsection \<open>Required arguments\<close>

lemma constructor_requires_keys:
  "not_given api_key \<Longrightarrow>
     constructor api_key secret_key opts = Inl (Error ''API key is required'')"
  "\<not> not_given api_key \<Longrightarrow> not_given secret_key \<Longrightarrow>
     constructor api_key secret_key opts = Inl (Error ''Secret Key is required'')"
  by (simp_all add: constructor_def)

lemma CreateDeposit_requires_id:
  "falsy deposit_id \<Longrightarrow>
     CreateDeposit this deposit_id steam_id trade_url min_amount w
       = (Inl (Error ''Deposit ID is required''), this, w)"
  by (simp add: CreateDeposit_def)

lemma CreateOffer_requires_id:
  "falsy deposit_id \<Longrightarrow>
     CreateOffer this deposit_id steam_id app_id trade_url item_array w
       = (Inl (Error ''Deposit ID is required''), this, w)"
  by (simp add: CreateOffer_def)

lemma GetStatusDeposit_requires_id:
  "falsy trade_id \<Longrightarrow>
     GetStatusDeposit this trade_id w = (Inl (Error ''Trade ID is required''), this, w)"
  by (simp add: GetStatusDeposit_def)

text \<open>
  C8, where the code departs from it. \<^verbatim>\<open>BuySkin\<close> without its identifier, on the example
  client: the call rejects with a \<^verbatim>\<open>ReferenceError\<close>, not with the error
  \<^verbatim>\<open>Trade ID is required\<close> that line 273 would throw. No request is issued. (The
  constructor and the other calls do reject a missing credential or identifier with
  their own error before any request: the lemmas above.)
\<close>

theorem BuySkin_missing_identifier:
  "BuySkin example_client Undefined (Str ''12345678'') (Str ''tok'') Undefined Undefined
      Undefined Undefined ticking_world
     = (Inl (ReferenceError ''trade_id is not defined''), example_client, ticking_world)"
  by (simp add: BuySkin_def resolve_def Let_def ticking_world_def)

text \<open>
  Were \<^verbatim>\<open>trade_id\<close> bound in the global object, the check of line 272 would test that
  value, whatever the identifier passed: with a truthy value the call signs and sends its
  request even without an identifier.
\<close>

lemma BuySkin_with_global_trade_id:
  "globals w ''trade_id'' = Some v \<Longrightarrow> \<not> falsy v \<Longrightarrow>
   length (sent (snd (snd
     (BuySkin this internal_id partner partner_token app_id max_price item_id full_name w))))
     = Suc (length (sent w))"
  by (simp add: BuySkin_def resolve_def Let_def sign_headers_eq client_post_eq return_data_simps)

text \<open>
  C9. The check at line 272 reads the identifier \<^verbatim>\<open>trade_id\<close>, which the method, the
  class and the module do not declare. Where the global object does not bind it either,
  \<^verbatim>\<open>BuySkin\<close> throws for every argument list, valid or not, before any request is
  issued: the call rejects with a \<^verbatim>\<open>ReferenceError\<close>, and the instance and the world (the
  requests issued, the clock readings) are left as they were.
\<close>

theorem BuySkin_always_throws:
  "globals w ''trade_id'' = None \<Longrightarrow>
   BuySkin this internal_id partner partner_token app_id max_price item_id full_name w
     = (Inl (ReferenceError ''trade_id is not defined''), this, w)"
  by (simp add: BuySkin_def resolve_def Let_def)

text \<open>A call with every argument given and valid, on the example client.\<close>

theorem BuySkin_always_throws_witness:
  "globals ticking_world ''trade_id'' = None
   \<and> BuySkin example_client (Str ''I1'') (Str ''12345678'') (Str ''tok'') (Num (Finite False 73 3))
        (Num (Finite False 1 1)) (Str ''4141'') (Str ''AK-47 | Redline'') ticking_world
     = (Inl (ReferenceError ''trade_id is not defined''), example_client, ticking_world)"
proof -
  have g: "globals ticking_world ''trade_id'' = None" by (simp add: ticking_world_def)
  show ?thesis
    using g BuySkin_always_throws [OF g, of example_client "Str ''I1''" "Str ''12345678''"
      "Str ''tok''" "Num (Finite False 73 3)" "Num (Finite False 1 1)" "Str ''4141''"
      "Str ''AK-47 | Redline''"]
    by simp
qed

end
